theory Spec2Isabelle
  imports Complex_Main
begin

section \<open>Python values, exceptions and string operations\<close>

text \<open>
  The component is \<^verbatim>\<open>AzureOpenAIDocumentEmbedder\<close> of
  \<^verbatim>\<open>src/haystack/components/embedders/azure_document_embedder.py\<close>.
  Every exception the Python code can raise is a value of \<open>exn\<close>; a function that can
  raise returns \<open>exn + 'a\<close> with \<open>Inl\<close> for the raise.
\<close>

datatype exn =
    ValueError string
  | TypeError string
  | DeserializationError string
  | ExternalError string

text \<open>
  Values of document metadata (\<^verbatim>\<open>Dict[str, Any]\<close>): the kinds of value
  whose \<^verbatim>\<open>str()\<close> is modelled here.
\<close>

datatype pyval = PNone | PStr string | PInt int | PBool bool

text \<open>Truthiness of a value, as Python's \<^verbatim>\<open>if x:\<close> tests it.\<close>

fun truthy :: "pyval \<Rightarrow> bool" where
  "truthy PNone = False"
| "truthy (PStr s) = (s \<noteq> [])"
| "truthy (PInt i) = (i \<noteq> 0)"
| "truthy (PBool b) = b"

definition digit_char :: "nat \<Rightarrow> char" where
  "digit_char d = ''0123456789'' ! (d mod 10)"

function str_nat :: "nat \<Rightarrow> string" where
  "str_nat n = (if n < 10 then [digit_char n] else str_nat (n div 10) @ [digit_char (n mod 10)])"
  by pat_completeness auto
termination
  by (relation "measure (\<lambda>n. n)") auto

declare str_nat.simps [simp del]

definition str_int :: "int \<Rightarrow> string" where
  "str_int i = (if i < 0 then CHR ''-'' # str_nat (nat (- i)) else str_nat (nat i))"

text \<open>\<^verbatim>\<open>str(v)\<close>.\<close>

fun py_str :: "pyval \<Rightarrow> string" where
  "py_str PNone = ''None''"
| "py_str (PStr s) = s"
| "py_str (PInt i) = str_int i"
| "py_str (PBool b) = (if b then ''True'' else ''False'')"

text \<open>\<^verbatim>\<open>sep.join(parts)\<close>.\<close>

fun join :: "string \<Rightarrow> string list \<Rightarrow> string" where
  "join sep [] = []"
| "join sep [x] = x"
| "join sep (x # y # ys) = x @ sep @ join sep (y # ys)"

definition newline :: char where
  "newline = CHR 0x0A"

text \<open>
  \<^verbatim>\<open>s.replace(old, new)\<close> for one-character \<^verbatim>\<open>old\<close> and
  \<^verbatim>\<open>new\<close>, the only use the component makes of it.
\<close>

definition replace_char :: "char \<Rightarrow> char \<Rightarrow> string \<Rightarrow> string" where
  "replace_char old new s = map (\<lambda>c. if c = old then new else c) s"

text \<open>
  A Python \<^verbatim>\<open>dict\<close> keeps its keys in insertion order, and an assignment
  to a key that is already there replaces the value where the key stands. The dictionary
  is the list of its items; \<open>dict_setitem d k v\<close> is \<^verbatim>\<open>d[k] = v\<close>.
\<close>

fun dict_setitem :: "('k \<times> 'v) list \<Rightarrow> 'k \<Rightarrow> 'v \<Rightarrow> ('k \<times> 'v) list" where
  "dict_setitem [] k v = [(k, v)]"
| "dict_setitem ((k', v') # d) k v =
     (if k' = k then (k, v) # d else (k', v') # dict_setitem d k v)"

section \<open>Documents and the component\<close>

text \<open>
  A \<^verbatim>\<open>Document\<close>: its identifier, its content, its metadata and its
  embedding. \<^verbatim>\<open>run\<close> mutates the documents it is given, and a list can hold
  one object twice, so documents live in a heap and a list of documents is a list of
  addresses.
\<close>

record document =
  doc_id :: string
  content :: "string option"
  meta :: "(string \<times> pyval) list"
  embedding :: "real list option"

type_synonym addr = nat

text \<open>
  A secret of \<^verbatim>\<open>haystack.utils.Secret\<close>: a reference to environment
  variables, as the constructor's defaults build it
  (\<^verbatim>\<open>Secret.from_env_var("AZURE_OPENAI_API_KEY", strict=False)\<close>), or a
  secret that holds its value (\<^verbatim>\<open>Secret.from_token\<close>).
\<close>

datatype secret = EnvVarSecret "string list" bool | TokenSecret string

text \<open>
  A token provider (\<^verbatim>\<open>AzureADTokenProvider\<close>) is a callable; the model
  knows it by the dotted path under which it can be imported.
\<close>

datatype token_provider = TokenProvider string

text \<open>
  \<^verbatim>\<open>http_client_kwargs\<close> is annotated as a dictionary, and
  \<^verbatim>\<open>_init_http_client\<close> tests at run time that it is one.
\<close>

datatype kwargs = KwDict "(string \<times> pyval) list" | KwOther pyval

text \<open>
  The attributes \<^verbatim>\<open>__init__\<close> sets on \<^verbatim>\<open>self\<close>, but for
  \<^verbatim>\<open>self._client\<close>: creating the client is an event of the construction
  (see \<open>init\<close>), and the calls it serves are the \<open>create\<close> parameter of
  \<open>embed_batch\<close>.
\<close>

record component =
  api_key :: "secret option"
  azure_ad_token :: "secret option"
  api_version :: "string option"
  azure_endpoint :: string
  azure_deployment :: string
  dimensions :: "int option"
  organization :: "string option"
  prefix :: string
  suffix :: string
  batch_size :: int
  progress_bar :: bool
  meta_fields_to_embed :: "string list"
  embedding_separator :: string
  timeout :: real
  max_retries :: int
  default_headers :: "(string \<times> string) list"
  azure_ad_token_provider :: "token_provider option"
  http_client_kwargs :: "kwargs option"

section \<open>The text preparer\<close>

text \<open>
  The list comprehension of \<^verbatim>\<open>_prepare_texts_to_embed\<close>:
  \<^verbatim>\<open>[str(doc.meta[key]) for key in self.meta_fields_to_embed
     if key in doc.meta and doc.meta[key] is not None]\<close>.
\<close>

fun meta_values_to_embed :: "(string \<times> pyval) list \<Rightarrow> string list \<Rightarrow> string list" where
  "meta_values_to_embed m [] = []"
| "meta_values_to_embed m (key # keys) =
     (case map_of m key of
        None \<Rightarrow> meta_values_to_embed m keys
      | Some v \<Rightarrow>
          (if v \<noteq> PNone then py_str v # meta_values_to_embed m keys
           else meta_values_to_embed m keys))"

text \<open>\<^verbatim>\<open>doc.content or ""\<close>.\<close>

definition content_or_empty :: "document \<Rightarrow> string" where
  "content_or_empty doc = (case content doc of None \<Rightarrow> [] | Some s \<Rightarrow> s)"

text \<open>The body of the loop: the text of one document.\<close>

definition text_to_embed :: "component \<Rightarrow> document \<Rightarrow> string" where
  "text_to_embed self doc =
     replace_char newline CHR '' ''
       (prefix self
        @ join (embedding_separator self)
            (meta_values_to_embed (meta doc) (meta_fields_to_embed self) @ [content_or_empty doc])
        @ suffix self)"

fun prepare_loop ::
  "component \<Rightarrow> document list \<Rightarrow> (string \<times> string) list \<Rightarrow> (string \<times> string) list" where
  "prepare_loop self [] texts_to_embed = texts_to_embed"
| "prepare_loop self (doc # docs) texts_to_embed =
     prepare_loop self docs (dict_setitem texts_to_embed (doc_id doc) (text_to_embed self doc))"

definition prepare_texts_to_embed :: "component \<Rightarrow> document list \<Rightarrow> (string \<times> string) list" where
  "prepare_texts_to_embed self documents = prepare_loop self documents []"

section \<open>The remote embedding service\<close>

text \<open>
  The keyword arguments of \<^verbatim>\<open>self._client.embeddings.create(**args)\<close>;
  the key \<^verbatim>\<open>"dimensions"\<close> is there only when
  \<^verbatim>\<open>self.dimensions\<close> is not \<^verbatim>\<open>None\<close>.
\<close>

record request =
  req_model :: string
  req_input :: "string list"
  req_dimensions :: "int option"

record usage =
  prompt_tokens :: int
  total_tokens :: int

record response =
  data :: "real list list"
  model :: string
  usage :: usage

text \<open>
  What one call does: it returns a response, raises \<^verbatim>\<open>APIError\<close> (with
  the error's text), or raises another exception, which the
  \<^verbatim>\<open>except APIError\<close> clause does not catch.
\<close>

datatype outcome = Returned response | APIError string | Raises exn

text \<open>
  The service is outside the program and has a state of its own: a call takes the state
  and the request and gives the outcome and the next state.
\<close>

type_synonym 's create = "'s \<Rightarrow> request \<Rightarrow> outcome \<times> 's"

section \<open>The batch embedder\<close>

text \<open>
  Modelled from the spec: \<^verbatim>\<open>batched\<close> is imported from the
  \<^verbatim>\<open>more_itertools\<close> package, which is not among the sources. The spec
  (4.2) says: "Partitions entries into consecutive groups of at most
  \<^verbatim>\<open>batch_size\<close> (last group may be smaller), preserving order", for a
  "batch size (positive integer)". \<open>batches_of\<close> cuts the groups; its test
  \<open>n = 0\<close> makes the recursion total and is never reached from \<open>batched\<close>,
  which raises the library's \<^verbatim>\<open>ValueError\<close> for a size below one.
\<close>

function batches_of :: "nat \<Rightarrow> 'a list \<Rightarrow> 'a list list" where
  "batches_of n xs = (if n = 0 \<or> xs = [] then [] else take n xs # batches_of n (drop n xs))"
  by pat_completeness auto
termination
  by (relation "measure (\<lambda>(n, xs). length xs)") auto

declare batches_of.simps [simp del]

definition batched :: "'a list \<Rightarrow> int \<Rightarrow> exn + 'a list list" where
  "batched iterable n =
     (if n < 1 then Inl (ValueError ''n must be at least one'')
      else Inr (batches_of (nat n) iterable))"

text \<open>\<^verbatim>\<open>meta\<close> of \<^verbatim>\<open>_embed_batch\<close>: the model name and the usage.\<close>

record meta_info =
  meta_model :: string
  meta_usage :: usage

definition initial_meta :: meta_info where
  "initial_meta = \<lparr>meta_model = [], meta_usage = \<lparr>prompt_tokens = 0, total_tokens = 0\<rparr>\<rparr>"

text \<open>
  The update after a successful call: \<^verbatim>\<open>if not meta["model"]\<close> takes the
  response's model and usage, the other branch adds the two token counts.
\<close>

definition update_meta :: "meta_info \<Rightarrow> response \<Rightarrow> meta_info" where
  "update_meta m r =
     (if meta_model m = [] then \<lparr>meta_model = model r, meta_usage = usage r\<rparr>
      else m\<lparr>meta_usage :=
        \<lparr>prompt_tokens = prompt_tokens (meta_usage m) + prompt_tokens (usage r),
         total_tokens = total_tokens (meta_usage m) + total_tokens (usage r)\<rparr>\<rparr>)"

definition embed_args :: "component \<Rightarrow> (string \<times> string) list \<Rightarrow> request" where
  "embed_args self batch =
     \<lparr>req_model = azure_deployment self, req_input = map snd batch,
      req_dimensions = dimensions self\<rparr>"

text \<open>
  The entry \<^verbatim>\<open>logger.exception\<close> writes for a batch whose call raised
  \<^verbatim>\<open>APIError\<close>.
\<close>

definition failure_message :: "(string \<times> string) list \<Rightarrow> string \<Rightarrow> string" where
  "failure_message batch e =
     ''Failed embedding of documents '' @ join '', '' (map fst batch) @ '' caused by '' @ e"

text \<open>
  The loop of \<^verbatim>\<open>_embed_batch\<close> over the batches, with the accumulated
  embeddings, the meta information, the state of the service and the log.
\<close>

fun embed_loop ::
  "'s create \<Rightarrow> component \<Rightarrow> (string \<times> string) list list \<Rightarrow> real list list \<Rightarrow> meta_info
     \<Rightarrow> 's \<Rightarrow> string list \<Rightarrow> (exn + real list list \<times> meta_info) \<times> 's \<times> string list" where
  "embed_loop create self [] all_embeddings m s lg = (Inr (all_embeddings, m), s, lg)"
| "embed_loop create self (batch # batches) all_embeddings m s lg =
     (case create s (embed_args self batch) of
        (APIError e, s') \<Rightarrow>
          embed_loop create self batches all_embeddings m s' (lg @ [failure_message batch e])
      | (Raises x, s') \<Rightarrow> (Inl x, s', lg)
      | (Returned r, s') \<Rightarrow>
          embed_loop create self batches (all_embeddings @ data r) (update_meta m r) s' lg)"

definition embed_batch ::
  "'s create \<Rightarrow> component \<Rightarrow> (string \<times> string) list \<Rightarrow> int \<Rightarrow> 's \<Rightarrow> string list
     \<Rightarrow> (exn + real list list \<times> meta_info) \<times> 's \<times> string list" where
  "embed_batch create self texts_to_embed n s lg =
     (case batched texts_to_embed n of
        Inl e \<Rightarrow> (Inl e, s, lg)
      | Inr batches \<Rightarrow> embed_loop create self batches [] initial_meta s lg)"

section \<open>The entry point\<close>

text \<open>
  What \<^verbatim>\<open>run\<close> can be called with: any object. A list holds documents (by
  address) or other values.
\<close>

datatype pyobj = Doc addr | Other pyval

datatype run_arg = PyList "pyobj list" | NotAList pyval

text \<open>
  \<^verbatim>\<open>all(isinstance(doc, Document) for doc in documents)\<close>, giving the
  documents when it holds.
\<close>

fun all_documents :: "pyobj list \<Rightarrow> addr list option" where
  "all_documents [] = Some []"
| "all_documents (Doc a # objs) = map_option ((#) a) (all_documents objs)"
| "all_documents (Other v # objs) = None"

text \<open>
  What the program can change: the documents, the state of the service and the log.
\<close>

record 's world =
  heap :: "addr \<Rightarrow> document"
  remote :: 's
  log :: "string list"

text \<open>
  \<^verbatim>\<open>for doc, emb in zip(documents, embeddings): doc.embedding = emb\<close>.
\<close>

fun assign :: "(addr \<Rightarrow> document) \<Rightarrow> addr list \<Rightarrow> real list list \<Rightarrow> addr \<Rightarrow> document" where
  "assign h (a # as) (emb # embs) = assign (h(a := (h a)\<lparr>embedding := Some emb\<rparr>)) as embs"
| "assign h [] embs = h"
| "assign h as [] = h"

record run_result =
  documents :: "addr list"
  result_meta :: meta_info

definition run :: "'s create \<Rightarrow> component \<Rightarrow> run_arg \<Rightarrow> 's world \<Rightarrow> (exn + run_result) \<times> 's world" where
  "run create self arg w =
     (case arg of
        NotAList v \<Rightarrow>
          (Inl (TypeError ''Input must be a list of Document instances. For strings, use AzureOpenAITextEmbedder.''), w)
      | PyList objs \<Rightarrow>
          (case all_documents objs of
             None \<Rightarrow>
               (Inl (TypeError ''Input must be a list of Document instances. For strings, use AzureOpenAITextEmbedder.''), w)
           | Some docs \<Rightarrow>
               (let texts_to_embed = prepare_texts_to_embed self (map (heap w) docs) in
                case embed_batch create self texts_to_embed (batch_size self) (remote w) (log w) of
                  (Inl e, s', lg') \<Rightarrow> (Inl e, w\<lparr>remote := s', log := lg'\<rparr>)
                | (Inr (embeddings, m), s', lg') \<Rightarrow>
                    (Inr \<lparr>documents = docs, result_meta = m\<rparr>,
                     \<lparr>heap = assign (heap w) docs embeddings, remote = s', log = lg'\<rparr>))))"

section \<open>The calls of one run, as a trace\<close>

text \<open>
  The theorems speak of the calls \<^verbatim>\<open>_embed_batch\<close> makes through what the
  service answers when it is sent a list of requests one after the other, each once:
  \<open>call_all\<close> gives the outcomes in order and the state the service is left in.
\<close>

fun call_all :: "'s create \<Rightarrow> 's \<Rightarrow> request list \<Rightarrow> outcome list \<times> 's" where
  "call_all create s [] = ([], s)"
| "call_all create s (r # rs) =
     (case create s r of
        (out, s') \<Rightarrow> (case call_all create s' rs of (outs, s'') \<Rightarrow> (out # outs, s'')))"

text \<open>
  The calls of a run in which the service may raise anything: the requests are sent in
  order until one makes the service raise an exception that is not
  \<^verbatim>\<open>APIError\<close>; that outcome is the last of the list.
\<close>

fun call_until_raise :: "'s create \<Rightarrow> 's \<Rightarrow> request list \<Rightarrow> outcome list \<times> 's" where
  "call_until_raise create s [] = ([], s)"
| "call_until_raise create s (r # rs) =
     (case create s r of
        (Raises x, s') \<Rightarrow> ([Raises x], s')
      | (out, s') \<Rightarrow>
          (case call_until_raise create s' rs of (outs, s'') \<Rightarrow> (out # outs, s'')))"

text \<open>The exception of the first outcome that is a raise, if there is one.\<close>

fun raised :: "outcome list \<Rightarrow> exn option" where
  "raised [] = None"
| "raised (Raises x # outs) = Some x"
| "raised (out # outs) = raised outs"

fun raises :: "outcome \<Rightarrow> bool" where
  "raises (Raises x) = True"
| "raises out = False"

fun api_error :: "outcome \<Rightarrow> bool" where
  "api_error (APIError e) = True"
| "api_error out = False"

text \<open>The responses among the outcomes, in order.\<close>

fun responses :: "outcome list \<Rightarrow> response list" where
  "responses [] = []"
| "responses (Returned r # outs) = r # responses outs"
| "responses (out # outs) = responses outs"

text \<open>The log entries of the batches whose call raised \<^verbatim>\<open>APIError\<close>, in order.\<close>

fun failure_log :: "(string \<times> string) list list \<Rightarrow> outcome list \<Rightarrow> string list" where
  "failure_log (b # bs) (APIError e # outs) = failure_message b e # failure_log bs outs"
| "failure_log (b # bs) (out # outs) = failure_log bs outs"
| "failure_log bs outs = []"

text \<open>
  The service keeps its contract for a request: it returns one vector for each text of
  the request, under a model name that is not empty.
\<close>

fun well_formed :: "request \<Rightarrow> outcome \<Rightarrow> bool" where
  "well_formed req (Returned r) = (length (data r) = length (req_input req) \<and> model r \<noteq> [])"
| "well_formed req out = False"

section \<open>Construction\<close>

text \<open>
  The arguments of \<^verbatim>\<open>__init__\<close>. An argument annotated
  \<^verbatim>\<open>Optional\<close> is an option, \<open>None\<close> for \<^verbatim>\<open>None\<close>.
\<close>

record init_args =
  arg_azure_endpoint :: "string option"
  arg_api_version :: "string option"
  arg_azure_deployment :: string
  arg_dimensions :: "int option"
  arg_api_key :: "secret option"
  arg_azure_ad_token :: "secret option"
  arg_organization :: "string option"
  arg_prefix :: string
  arg_suffix :: string
  arg_batch_size :: int
  arg_progress_bar :: bool
  arg_meta_fields_to_embed :: "string list option"
  arg_embedding_separator :: string
  arg_timeout :: "real option"
  arg_max_retries :: "int option"
  arg_default_headers :: "(string \<times> string) list option"
  arg_azure_ad_token_provider :: "token_provider option"
  arg_http_client_kwargs :: "kwargs option"

text \<open>The defaults of the signature.\<close>

definition default_args :: init_args where
  "default_args =
     \<lparr>arg_azure_endpoint = None,
      arg_api_version = Some ''2023-05-15'',
      arg_azure_deployment = ''text-embedding-ada-002'',
      arg_dimensions = None,
      arg_api_key = Some (EnvVarSecret [''AZURE_OPENAI_API_KEY''] False),
      arg_azure_ad_token = Some (EnvVarSecret [''AZURE_OPENAI_AD_TOKEN''] False),
      arg_organization = None,
      arg_prefix = [],
      arg_suffix = [],
      arg_batch_size = 32,
      arg_progress_bar = True,
      arg_meta_fields_to_embed = None,
      arg_embedding_separator = [newline],
      arg_timeout = None,
      arg_max_retries = None,
      arg_default_headers = None,
      arg_azure_ad_token_provider = None,
      arg_http_client_kwargs = None\<rparr>"

text \<open>\<^verbatim>\<open>os.environ\<close>.\<close>

type_synonym environ = "string \<Rightarrow> string option"

text \<open>The keyword arguments \<^verbatim>\<open>__init__\<close> passes to \<^verbatim>\<open>AzureOpenAI\<close>.\<close>

record client_args =
  c_api_version :: "string option"
  c_azure_endpoint :: string
  c_azure_deployment :: string
  c_azure_ad_token_provider :: "token_provider option"
  c_api_key :: "string option"
  c_azure_ad_token :: "string option"
  c_organization :: "string option"
  c_timeout :: real
  c_max_retries :: int
  c_default_headers :: "(string \<times> string) list"
  c_http_client :: "(string \<times> pyval) list option"

text \<open>
  What the construction calls outside the file, as parameters: how a secret resolves in
  an environment (\<^verbatim>\<open>Secret.resolve_value\<close>), Python's
  \<^verbatim>\<open>float\<close> and \<^verbatim>\<open>int\<close> on a string, whether
  \<^verbatim>\<open>httpx.Client\<close> and \<^verbatim>\<open>AzureOpenAI\<close> accept their
  arguments (\<open>None\<close>) or raise, and what a dotted path names
  (for \<^verbatim>\<open>deserialize_callable\<close>).
\<close>

record externals =
  resolve_value :: "secret \<Rightarrow> environ \<Rightarrow> exn + string option"
  py_float :: "string \<Rightarrow> exn + real"
  py_int :: "string \<Rightarrow> exn + int"
  httpx_Client :: "(string \<times> pyval) list \<Rightarrow> exn option"
  AzureOpenAI :: "client_args \<Rightarrow> exn option"
  registry :: "string \<Rightarrow> token_provider option"

text \<open>The clients a construction creates, in order.\<close>

datatype event = HttpClientCreated "(string \<times> pyval) list" | ClientCreated client_args

text \<open>
  \<^verbatim>\<open>azure_endpoint or os.environ.get("AZURE_OPENAI_ENDPOINT")\<close>: an empty
  string is false.
\<close>

definition endpoint_or_env :: "string option \<Rightarrow> environ \<Rightarrow> string option" where
  "endpoint_or_env ep env =
     (case ep of
        None \<Rightarrow> env ''AZURE_OPENAI_ENDPOINT''
      | Some e \<Rightarrow> (if e = [] then env ''AZURE_OPENAI_ENDPOINT'' else Some e))"

text \<open>
  \<^verbatim>\<open>timeout if timeout is not None else float(os.environ.get("OPENAI_TIMEOUT", "30.0"))\<close>
  and the same for \<^verbatim>\<open>max_retries\<close>.
\<close>

definition resolve_timeout :: "externals \<Rightarrow> environ \<Rightarrow> real option \<Rightarrow> exn + real" where
  "resolve_timeout E env t =
     (case t of
        Some x \<Rightarrow> Inr x
      | None \<Rightarrow> py_float E (case env ''OPENAI_TIMEOUT'' of None \<Rightarrow> ''30.0'' | Some v \<Rightarrow> v))"

definition resolve_max_retries :: "externals \<Rightarrow> environ \<Rightarrow> int option \<Rightarrow> exn + int" where
  "resolve_max_retries E env n =
     (case n of
        Some x \<Rightarrow> Inr x
      | None \<Rightarrow> py_int E (case env ''OPENAI_MAX_RETRIES'' of None \<Rightarrow> ''5'' | Some v \<Rightarrow> v))"

text \<open>\<^verbatim>\<open>api_key.resolve_value() if api_key is not None else None\<close>.\<close>

definition resolve_secret :: "externals \<Rightarrow> environ \<Rightarrow> secret option \<Rightarrow> exn + string option" where
  "resolve_secret E env sec =
     (case sec of None \<Rightarrow> Inr None | Some s \<Rightarrow> resolve_value E s env)"

text \<open>
  \<^verbatim>\<open>_init_http_client\<close>: the keyword arguments of the client it created, or
  \<open>None\<close> when it returns \<^verbatim>\<open>None\<close>.
\<close>

definition init_http_client ::
  "externals \<Rightarrow> kwargs option \<Rightarrow> (exn + (string \<times> pyval) list option) \<times> event list" where
  "init_http_client E kw =
     (case kw of
        None \<Rightarrow> (Inr None, [])
      | Some (KwOther v) \<Rightarrow>
          (if truthy v then (Inl (TypeError ''The parameter 'http_client_kwargs' must be a dictionary.''), [])
           else (Inr None, []))
      | Some (KwDict d) \<Rightarrow>
          (if d = [] then (Inr None, [])
           else (case httpx_Client E d of
                   Some e \<Rightarrow> (Inl e, [])
                 | None \<Rightarrow> (Inr (Some d), [HttpClientCreated d]))))"

text \<open>\<^verbatim>\<open>x or []\<close> for an optional list.\<close>

definition or_empty :: "'a list option \<Rightarrow> 'a list" where
  "or_empty xs = (case xs of None \<Rightarrow> [] | Some ys \<Rightarrow> ys)"

text \<open>
  The keyword arguments of the call \<^verbatim>\<open>AzureOpenAI(...)\<close>, from the
  arguments of the constructor, the resolved endpoint, timeout and retry count, the
  resolved secrets and the HTTP client.
\<close>

definition client_args_of ::
  "init_args \<Rightarrow> string \<Rightarrow> real \<Rightarrow> int \<Rightarrow> string option \<Rightarrow> string option
     \<Rightarrow> (string \<times> pyval) list option \<Rightarrow> client_args" where
  "client_args_of a ep t n key token http_client =
     \<lparr>c_api_version = arg_api_version a,
      c_azure_endpoint = ep,
      c_azure_deployment = arg_azure_deployment a,
      c_azure_ad_token_provider = arg_azure_ad_token_provider a,
      c_api_key = key,
      c_azure_ad_token = token,
      c_organization = arg_organization a,
      c_timeout = t,
      c_max_retries = n,
      c_default_headers = or_empty (arg_default_headers a),
      c_http_client = http_client\<rparr>"

text \<open>The attributes the constructor assigns.\<close>

definition attributes_of :: "init_args \<Rightarrow> string \<Rightarrow> real \<Rightarrow> int \<Rightarrow> component" where
  "attributes_of a ep t n =
     \<lparr>api_key = arg_api_key a,
      azure_ad_token = arg_azure_ad_token a,
      api_version = arg_api_version a,
      azure_endpoint = ep,
      azure_deployment = arg_azure_deployment a,
      dimensions = arg_dimensions a,
      organization = arg_organization a,
      prefix = arg_prefix a,
      suffix = arg_suffix a,
      batch_size = arg_batch_size a,
      progress_bar = arg_progress_bar a,
      meta_fields_to_embed = or_empty (arg_meta_fields_to_embed a),
      embedding_separator = arg_embedding_separator a,
      timeout = t,
      max_retries = n,
      default_headers = or_empty (arg_default_headers a),
      azure_ad_token_provider = arg_azure_ad_token_provider a,
      http_client_kwargs = arg_http_client_kwargs a\<rparr>"

text \<open>
  \<^verbatim>\<open>__init__\<close>, in the order of its statements and, in the call that
  creates the client, of the arguments. It gives the component or the exception, and the
  clients created on the way.
\<close>

definition init :: "externals \<Rightarrow> environ \<Rightarrow> init_args \<Rightarrow> (exn + component) \<times> event list" where
  "init E env a =
     (case endpoint_or_env (arg_azure_endpoint a) env of
        None \<Rightarrow>
          (Inl (ValueError ''Please provide an Azure endpoint or set the environment variable AZURE_OPENAI_ENDPOINT.''), [])
      | Some ep \<Rightarrow>
          if ep = [] then
            (Inl (ValueError ''Please provide an Azure endpoint or set the environment variable AZURE_OPENAI_ENDPOINT.''), [])
          else if arg_api_key a = None \<and> arg_azure_ad_token a = None then
            (Inl (ValueError ''Please provide an API key or an Azure Active Directory token.''), [])
          else
            (case resolve_timeout E env (arg_timeout a) of
               Inl e \<Rightarrow> (Inl e, [])
             | Inr t \<Rightarrow>
            (case resolve_max_retries E env (arg_max_retries a) of
               Inl e \<Rightarrow> (Inl e, [])
             | Inr n \<Rightarrow>
            (case resolve_secret E env (arg_api_key a) of
               Inl e \<Rightarrow> (Inl e, [])
             | Inr key \<Rightarrow>
            (case resolve_secret E env (arg_azure_ad_token a) of
               Inl e \<Rightarrow> (Inl e, [])
             | Inr token \<Rightarrow>
            (case init_http_client E (arg_http_client_kwargs a) of
               (Inl e, evs) \<Rightarrow> (Inl e, evs)
             | (Inr http_client, evs) \<Rightarrow>
            (let cargs = client_args_of a ep t n key token http_client
             in case AzureOpenAI E cargs of
                  Some e \<Rightarrow> (Inl e, evs)
                | None \<Rightarrow> (Inr (attributes_of a ep t n), evs @ [ClientCreated cargs]))))))))"

section \<open>Serialization\<close>

text \<open>
  Modelled from the spec: \<^verbatim>\<open>Secret.to_dict\<close> and
  \<^verbatim>\<open>deserialize_secrets_inplace\<close> are code of
  \<^verbatim>\<open>haystack.utils\<close>, which is not among the sources. The spec (4.4, 6)
  says that credentials are "represented as resolvable secret references (never embedded
  in plaintext in the serialized form)", "opaque secret-reference descriptors": the
  descriptor of a secret names the environment variables it resolves from and nothing
  else, and a secret that holds its value has no descriptor:
  \<^verbatim>\<open>to_dict\<close> raises \<^verbatim>\<open>ValueError\<close> for it.
\<close>

record secret_descr =
  descr_env_vars :: "string list"
  descr_strict :: bool

fun secret_to_dict :: "secret \<Rightarrow> exn + secret_descr" where
  "secret_to_dict (EnvVarSecret vars st) = Inr \<lparr>descr_env_vars = vars, descr_strict = st\<rparr>"
| "secret_to_dict (TokenSecret t) =
     Inl (ValueError ''Cannot serialize token-based secret. Use an alternative secret type like environment variables.'')"

definition secret_from_dict :: "secret_descr \<Rightarrow> secret" where
  "secret_from_dict d = EnvVarSecret (descr_env_vars d) (descr_strict d)"

text \<open>
  \<^verbatim>\<open>self.api_key.to_dict() if self.api_key is not None else None\<close>.
\<close>

definition optional_secret_to_dict :: "secret option \<Rightarrow> exn + secret_descr option" where
  "optional_secret_to_dict sec =
     (case sec of
        None \<Rightarrow> Inr None
      | Some s \<Rightarrow> (case secret_to_dict s of Inl e \<Rightarrow> Inl e | Inr d \<Rightarrow> Inr (Some d)))"

text \<open>
  Modelled from the spec: \<^verbatim>\<open>serialize_callable\<close> and
  \<^verbatim>\<open>deserialize_callable\<close> are code of \<^verbatim>\<open>haystack.utils\<close>,
  which is not among the sources. The spec (4.4, 6, 9) says that a custom token-provider
  function is "represented as a named, re-resolvable reference", "resolvable by an
  external registry": the reference is the provider's name, and the registry says what a
  name resolves to.
\<close>

fun serialize_callable :: "token_provider \<Rightarrow> string" where
  "serialize_callable (TokenProvider name) = name"

definition deserialize_callable :: "externals \<Rightarrow> string \<Rightarrow> exn + token_provider" where
  "deserialize_callable E name =
     (case registry E name of
        None \<Rightarrow> Inl (DeserializationError name)
      | Some p \<Rightarrow> Inr p)"

text \<open>
  The init parameters of the serialized form: the keyword arguments
  \<^verbatim>\<open>to_dict\<close> gives \<^verbatim>\<open>default_to_dict\<close>.
\<close>

record init_parameters =
  p_azure_endpoint :: string
  p_azure_deployment :: string
  p_dimensions :: "int option"
  p_organization :: "string option"
  p_api_version :: "string option"
  p_prefix :: string
  p_suffix :: string
  p_batch_size :: int
  p_progress_bar :: bool
  p_meta_fields_to_embed :: "string list"
  p_embedding_separator :: string
  p_api_key :: "secret_descr option"
  p_azure_ad_token :: "secret_descr option"
  p_timeout :: real
  p_max_retries :: int
  p_default_headers :: "(string \<times> string) list"
  p_azure_ad_token_provider :: "string option"
  p_http_client_kwargs :: "kwargs option"

record serialized =
  class_name :: string
  init_parameters :: init_parameters

text \<open>
  Modelled from the spec: \<^verbatim>\<open>default_to_dict\<close> and
  \<^verbatim>\<open>default_from_dict\<close> are code of the \<^verbatim>\<open>haystack\<close>
  package, which is not among the sources. The spec (4.4, 6) says that the component
  "supports serialization to and reconstruction from a plain configuration record", "a
  flat key-value record of all configuration fields": the record holds the init
  parameters, and reconstruction calls the constructor with them.
\<close>

definition default_to_dict :: "init_parameters \<Rightarrow> serialized" where
  "default_to_dict params =
     \<lparr>class_name = ''haystack.components.embedders.azure_document_embedder.AzureOpenAIDocumentEmbedder'',
      init_parameters = params\<rparr>"

definition default_from_dict ::
  "(init_args \<Rightarrow> (exn + component) \<times> event list) \<Rightarrow> init_args \<Rightarrow> (exn + component) \<times> event list" where
  "default_from_dict cls kwargs = cls kwargs"

text \<open>
  \<^verbatim>\<open>to_dict\<close>: the name of the provider first, then the keyword
  arguments in their order, of which the two secrets can raise.
\<close>

definition to_dict :: "component \<Rightarrow> exn + serialized" where
  "to_dict self =
     (let azure_ad_token_provider_name =
            (case azure_ad_token_provider self of
               None \<Rightarrow> None
             | Some p \<Rightarrow> Some (serialize_callable p))
      in case optional_secret_to_dict (api_key self) of
           Inl e \<Rightarrow> Inl e
         | Inr key \<Rightarrow>
        (case optional_secret_to_dict (azure_ad_token self) of
           Inl e \<Rightarrow> Inl e
         | Inr token \<Rightarrow>
             Inr (default_to_dict
               \<lparr>p_azure_endpoint = azure_endpoint self,
                p_azure_deployment = azure_deployment self,
                p_dimensions = dimensions self,
                p_organization = organization self,
                p_api_version = api_version self,
                p_prefix = prefix self,
                p_suffix = suffix self,
                p_batch_size = batch_size self,
                p_progress_bar = progress_bar self,
                p_meta_fields_to_embed = meta_fields_to_embed self,
                p_embedding_separator = embedding_separator self,
                p_api_key = key,
                p_azure_ad_token = token,
                p_timeout = timeout self,
                p_max_retries = max_retries self,
                p_default_headers = default_headers self,
                p_azure_ad_token_provider = azure_ad_token_provider_name,
                p_http_client_kwargs = http_client_kwargs self\<rparr>)))"

text \<open>
  \<^verbatim>\<open>from_dict\<close>, for a record that has every init parameter, as
  \<^verbatim>\<open>to_dict\<close> writes it. A provider name that is false (the empty string)
  is not deserialized: the source hands the empty string to the constructor, where every
  later test of the provider finds it false; the model hands over \<open>None\<close>.
\<close>

definition from_dict :: "externals \<Rightarrow> environ \<Rightarrow> serialized \<Rightarrow> (exn + component) \<times> event list" where
  "from_dict E env d =
     (let params = init_parameters d;
          key = map_option secret_from_dict (p_api_key params);
          token = map_option secret_from_dict (p_azure_ad_token params);
          provider =
            (case p_azure_ad_token_provider params of
               None \<Rightarrow> Inr None
             | Some name \<Rightarrow>
                 (if name = [] then Inr None
                  else map_sum (\<lambda>e. e) Some (deserialize_callable E name)))
      in case provider of
           Inl e \<Rightarrow> (Inl e, [])
         | Inr p \<Rightarrow>
             default_from_dict (init E env)
               \<lparr>arg_azure_endpoint = Some (p_azure_endpoint params),
                arg_api_version = p_api_version params,
                arg_azure_deployment = p_azure_deployment params,
                arg_dimensions = p_dimensions params,
                arg_api_key = key,
                arg_azure_ad_token = token,
                arg_organization = p_organization params,
                arg_prefix = p_prefix params,
                arg_suffix = p_suffix params,
                arg_batch_size = p_batch_size params,
                arg_progress_bar = p_progress_bar params,
                arg_meta_fields_to_embed = Some (p_meta_fields_to_embed params),
                arg_embedding_separator = p_embedding_separator params,
                arg_timeout = Some (p_timeout params),
                arg_max_retries = Some (p_max_retries params),
                arg_default_headers = Some (p_default_headers params),
                arg_azure_ad_token_provider = p,
                arg_http_client_kwargs = p_http_client_kwargs params\<rparr>)"

section \<open>The prepared text, in the words of the specification\<close>




section \<open>Concrete inputs\<close>

text \<open>
  The inputs at which the theorems are instantiated: documents with a content and no
  metadata, a heap holding a list of documents at the addresses \<open>0, 1, \<dots>\<close>, a
  component as the constructor's defaults give it with batch size 2, and services that
  answer a request with one vector for each text (the length of the text), fail the calls
  whose number is listed, and count or record the calls in their state.
\<close>

definition new_document :: "string \<Rightarrow> string \<Rightarrow> document" where
  "new_document i c = \<lparr>doc_id = i, content = Some c, meta = [], embedding = None\<rparr>"

definition heap_of :: "document list \<Rightarrow> addr \<Rightarrow> document" where
  "heap_of docs a = (if a < length docs then docs ! a else new_document [] [])"

definition example_component :: component where
  "example_component =
     \<lparr>api_key = Some (EnvVarSecret [''AZURE_OPENAI_API_KEY''] False),
      azure_ad_token = Some (EnvVarSecret [''AZURE_OPENAI_AD_TOKEN''] False),
      api_version = Some ''2023-05-15'',
      azure_endpoint = ''https://example.openai.azure.com'',
      azure_deployment = ''text-embedding-ada-002'',
      dimensions = None,
      organization = None,
      prefix = [],
      suffix = [],
      batch_size = 2,
      progress_bar = True,
      meta_fields_to_embed = [],
      embedding_separator = [newline],
      timeout = 30,
      max_retries = 5,
      default_headers = [],
      azure_ad_token_provider = None,
      http_client_kwargs = None\<rparr>"

definition fake_response :: "string \<Rightarrow> request \<Rightarrow> response" where
  "fake_response name req =
     \<lparr>data = map (\<lambda>t. [real (length t)]) (req_input req),
      model = name,
      usage = \<lparr>prompt_tokens = int (length (req_input req)),
               total_tokens = int (length (req_input req))\<rparr>\<rparr>"

definition fake_service :: "nat list \<Rightarrow> string \<Rightarrow> nat create" where
  "fake_service failing name s req =
     (if s \<in> set failing then (APIError ''rate limit'', Suc s)
      else (Returned (fake_response name req), Suc s))"

text \<open>
  A service that, at the calls listed second, raises an exception that is not
  \<^verbatim>\<open>APIError\<close>.
\<close>

definition faulty_service :: "nat list \<Rightarrow> nat list \<Rightarrow> nat create" where
  "faulty_service failing raising s req =
     (if s \<in> set raising then (Raises (ExternalError ''connection reset''), Suc s)
      else fake_service failing ''ada'' s req)"

definition recording_service :: "nat list \<Rightarrow> request list create" where
  "recording_service failing s req =
     (if length s \<in> set failing then (APIError ''rate limit'', s @ [req])
      else (Returned (fake_response ''ada'' req), s @ [req]))"

definition example_world :: "document list \<Rightarrow> 's \<Rightarrow> 's world" where
  "example_world docs s = \<lparr>heap = heap_of docs, remote = s, log = []\<rparr>"

text \<open>
  An environment with an endpoint and an API key, and externals: a secret resolves to the
  first of its variables that is set (or to the value it holds), \<^verbatim>\<open>float\<close> and \<^verbatim>\<open>int\<close>
  read the two defaults, both clients accept their arguments, and the registry knows
  the provider \<open>auth.get_token\<close>.
\<close>

definition example_environ :: environ where
  "example_environ =
     [''AZURE_OPENAI_ENDPOINT'' \<mapsto> ''https://example.openai.azure.com'',
      ''AZURE_OPENAI_API_KEY'' \<mapsto> ''k3y'']"

definition example_externals :: externals where
  "example_externals =
     \<lparr>resolve_value =
        (\<lambda>s env. case s of
           EnvVarSecret vars st \<Rightarrow>
             Inr (case List.map_filter env vars of [] \<Rightarrow> None | v # _ \<Rightarrow> Some v)
         | TokenSecret t \<Rightarrow> Inr (Some t)),
      py_float = (\<lambda>s. if s = ''30.0'' then Inr 30 else Inl (ValueError s)),
      py_int = (\<lambda>s. if s = ''5'' then Inr 5 else Inl (ValueError s)),
      httpx_Client = (\<lambda>d. None),
      AzureOpenAI = (\<lambda>c. None),
      registry = [''auth.get_token'' \<mapsto> TokenProvider ''auth.get_token'']\<rparr>"

definition four_documents :: "document list" where
  "four_documents =
     [new_document ''a'' ''x'', new_document ''b'' ''xx'',
      new_document ''c'' ''xxx'', new_document ''d'' ''xxxx'']"

definition five_documents :: "document list" where
  "five_documents = four_documents @ [new_document ''e'' ''xxxxx'']"

text \<open>Two documents under one identifier.\<close>

definition duplicate_documents :: "document list" where
  "duplicate_documents =
     [new_document ''a'' ''x'', new_document ''b'' ''xx'', new_document ''a'' ''xxx'']"

text \<open>The document of the specification's examples.\<close>

definition pizza :: document where
  "pizza =
     \<lparr>doc_id = ''d1'', content = Some ''I love pizza!'',
      meta = [(''topic'', PStr ''food'')], embedding = None\<rparr>"

text \<open>Arguments with an API key (the default secret) and no identity token.\<close>

definition key_only_args :: init_args where
  "key_only_args = default_args\<lparr>arg_azure_ad_token := None\<rparr>"

text \<open>Arguments with a token provider and neither an API key nor an identity token.\<close>

definition provider_only_args :: init_args where
  "provider_only_args =
     default_args\<lparr>arg_api_key := None, arg_azure_ad_token := None,
       arg_azure_ad_token_provider := Some (TokenProvider ''auth.get_token'')\<rparr>"

text \<open>The default arguments with a token provider.\<close>

definition key_and_provider_args :: init_args where
  "key_and_provider_args =
     default_args\<lparr>arg_azure_ad_token_provider := Some (TokenProvider ''auth.get_token'')\<rparr>"

text \<open>Arguments with an API key that holds its value.\<close>

definition token_key_args :: init_args where
  "token_key_args = default_args\<lparr>arg_api_key := Some (TokenSecret ''k3y'')\<rparr>"

text \<open>Externals whose registry knows no name.\<close>

definition empty_registry_externals :: externals where
  "empty_registry_externals = example_externals\<lparr>registry := (\<lambda>name. None)\<rparr>"

section \<open>Lemmas\<close>

subsection \<open>Batches\<close>

lemma concat_batches_of: "0 < n \<Longrightarrow> concat (batches_of n xs) = xs"
proof (induction n xs rule: batches_of.induct)
  case (1 n xs)
  then show ?case by (subst batches_of.simps) auto
qed

lemma batches_of_sizes:
  "b \<in> set (batches_of n xs) \<Longrightarrow> b \<noteq> [] \<and> length b \<le> n"
proof (induction n xs rule: batches_of.induct)
  case (1 n xs)
  from "1.prems" have ne: "\<not> (n = 0 \<or> xs = [])"
    by (subst (asm) batches_of.simps) (auto split: if_splits)
  from "1.prems" ne have "b = take n xs \<or> b \<in> set (batches_of n (drop n xs))"
    by (subst (asm) batches_of.simps) auto
  then show ?case using "1.IH"[OF ne] ne by auto
qed

lemma batches_of_full:
  "Suc i < length (batches_of n xs) \<Longrightarrow> length (batches_of n xs ! i) = n"
proof (induction n xs arbitrary: i rule: batches_of.induct)
  case (1 n xs)
  from "1.prems" have ne: "\<not> (n = 0 \<or> xs = [])"
    by (subst (asm) batches_of.simps) (auto split: if_splits)
  have unf: "batches_of n xs = take n xs # batches_of n (drop n xs)"
    using ne by (subst batches_of.simps) simp
  show ?case
  proof (cases i)
    case 0
    with "1.prems" unf have "batches_of n (drop n xs) \<noteq> []" by auto
    then have "drop n xs \<noteq> []" by (subst (asm) batches_of.simps) (auto split: if_splits)
    then show ?thesis using 0 unf by simp
  next
    case (Suc j)
    with "1.prems" unf have "Suc j < length (batches_of n (drop n xs))" by simp
    from "1.IH"[OF ne this] show ?thesis using Suc unf by simp
  qed
qed

subsection \<open>The dictionary of texts\<close>

lemma dict_setitem_new: "k \<notin> set (map fst d) \<Longrightarrow> dict_setitem d k v = d @ [(k, v)]"
  by (induction d) auto

lemma map_fst_dict_setitem:
  "map fst (dict_setitem d k v) = (if k \<in> set (map fst d) then map fst d else map fst d @ [k])"
proof (induction d)
  case Nil
  then show ?case by simp
next
  case (Cons kv d)
  obtain k' v' where kv: "kv = (k', v')" by (cases kv)
  show ?case
  proof (cases "k' = k")
    case True
    then show ?thesis by (simp add: kv)
  next
    case False
    then show ?thesis using Cons.IH by (simp add: kv del: set_map)
  qed
qed

lemma prepare_loop_distinct:
  "distinct (map doc_id docs) \<Longrightarrow> set (map doc_id docs) \<inter> set (map fst acc) = {} \<Longrightarrow>
   prepare_loop self docs acc = acc @ map (\<lambda>d. (doc_id d, text_to_embed self d)) docs"
proof (induction docs arbitrary: acc)
  case Nil
  then show ?case by simp
next
  case (Cons d docs)
  from Cons.prems have new: "doc_id d \<notin> set (map fst acc)" by auto
  have "set (map doc_id docs) \<inter> set (map fst (acc @ [(doc_id d, text_to_embed self d)])) = {}"
    using Cons.prems by auto
  with Cons.IH[of "acc @ [(doc_id d, text_to_embed self d)]"] Cons.prems new
  show ?case by (simp add: dict_setitem_new)
qed

lemma prepare_loop_keys:
  "set (map fst (prepare_loop self docs acc)) = set (map fst acc) \<union> set (map doc_id docs)"
proof (induction docs arbitrary: acc)
  case Nil
  then show ?case by simp
next
  case (Cons d docs)
  have "set (map fst (dict_setitem acc (doc_id d) (text_to_embed self d)))
      = insert (doc_id d) (set (map fst acc))"
    by (simp only: map_fst_dict_setitem split: if_splits) auto
  then show ?case using Cons.IH[of "dict_setitem acc (doc_id d) (text_to_embed self d)"]
    by (simp del: set_map)
qed

lemma prepare_loop_keys_distinct:
  "distinct (map fst acc) \<Longrightarrow> distinct (map fst (prepare_loop self docs acc))"
proof (induction docs arbitrary: acc)
  case Nil
  then show ?case by simp
next
  case (Cons d docs)
  have "distinct (map fst (dict_setitem acc (doc_id d) (text_to_embed self d)))"
    using Cons.prems by (simp only: map_fst_dict_setitem split: if_splits) simp
  then show ?case using Cons.IH by simp
qed

lemma length_prepare_texts_to_embed:
  "length (prepare_texts_to_embed self docs) = card (set (map doc_id docs))"
proof -
  let ?t = "prepare_texts_to_embed self docs"
  have d: "distinct (map fst ?t)"
    unfolding prepare_texts_to_embed_def by (rule prepare_loop_keys_distinct) simp
  have "length ?t = length (map fst ?t)" by simp
  also have "\<dots> = card (set (map fst ?t))" using d by (simp only: distinct_card)
  also have "set (map fst ?t) = set (map doc_id docs)"
    unfolding prepare_texts_to_embed_def using prepare_loop_keys[of self docs "[]"] by simp
  finally show ?thesis .
qed

lemma map_of_dict_setitem: "map_of (dict_setitem d k v) = (map_of d)(k \<mapsto> v)"
  by (induction d) (auto simp: fun_eq_iff)

lemma find_append_cases:
  "find P (xs @ ys) = (case find P xs of None \<Rightarrow> find P ys | Some x \<Rightarrow> Some x)"
  by (induction xs) auto

lemma map_of_prepare_loop:
  "map_of (prepare_loop self docs acc) i =
     (case find (\<lambda>d. doc_id d = i) (rev docs) of
        None \<Rightarrow> map_of acc i
      | Some d \<Rightarrow> Some (text_to_embed self d))"
proof (induction docs arbitrary: acc)
  case Nil
  then show ?case by simp
next
  case (Cons d docs)
  show ?case
    by (simp add: Cons.IH map_of_dict_setitem find_append_cases split: option.splits)
qed

subsection \<open>Assignment\<close>

lemma assign_other: "a \<notin> set (take (length embs) as) \<Longrightarrow> assign h as embs a = h a"
proof (induction as arbitrary: h embs)
  case Nil
  then show ?case by simp
next
  case (Cons b as)
  show ?case
  proof (cases embs)
    case Nil
    then show ?thesis by simp
  next
    case e: (Cons emb embs')
    let ?h = "h(b := (h b)\<lparr>embedding := Some emb\<rparr>)"
    from Cons.prems e have ab: "a \<noteq> b" and rest: "a \<notin> set (take (length embs') as)" by auto
    have "assign h (b # as) (emb # embs') a = assign ?h as embs' a" by simp
    also have "\<dots> = ?h a" using rest by (rule Cons.IH)
    also have "\<dots> = h a" using ab by simp
    finally show ?thesis unfolding e .
  qed
qed

lemma assign_frame:
  "assign h as embs a = (h a)\<lparr>embedding := embedding (assign h as embs a)\<rparr>"
proof (induction as arbitrary: h embs)
  case Nil
  then show ?case by simp
next
  case (Cons b as)
  show ?case
  proof (cases embs)
    case Nil
    then show ?thesis by simp
  next
    case e: (Cons emb embs')
    let ?h = "h(b := (h b)\<lparr>embedding := Some emb\<rparr>)"
    have step: "assign h (b # as) (emb # embs') a = assign ?h as embs' a" by simp
    have "assign ?h as embs' a = (?h a)\<lparr>embedding := embedding (assign ?h as embs' a)\<rparr>"
      by (rule Cons.IH)
    also have "\<dots> = (h a)\<lparr>embedding := embedding (assign ?h as embs' a)\<rparr>"
      by (cases "a = b") simp_all
    finally show ?thesis unfolding e step .
  qed
qed

lemma assign_distinct:
  "distinct as \<Longrightarrow> i < length as \<Longrightarrow> i < length embs \<Longrightarrow>
   assign h as embs (as ! i) = (h (as ! i))\<lparr>embedding := Some (embs ! i)\<rparr>"
proof (induction as arbitrary: h embs i)
  case Nil
  then show ?case by simp
next
  case (Cons a as)
  from Cons.prems obtain emb embs' where e: "embs = emb # embs'" by (cases embs) auto
  let ?h = "h(a := (h a)\<lparr>embedding := Some emb\<rparr>)"
  have step: "\<And>x. assign h (a # as) (emb # embs') x = assign ?h as embs' x" by simp
  show ?case
  proof (cases i)
    case 0
    have "a \<notin> set (take (length embs') as)" using Cons.prems(1) by (auto dest: in_set_takeD)
    then have "assign ?h as embs' a = ?h a" by (rule assign_other)
    also have "\<dots> = (h a)\<lparr>embedding := Some emb\<rparr>" by simp
    finally show ?thesis unfolding e step 0 by simp
  next
    case (Suc j)
    with Cons.prems e have j: "distinct as" "j < length as" "j < length embs'" "as ! j \<noteq> a"
      by auto
    have "assign ?h as embs' (as ! j) = (?h (as ! j))\<lparr>embedding := Some (embs' ! j)\<rparr>"
      using j(1) j(2) j(3) by (rule Cons.IH)
    also have "\<dots> = (h (as ! j))\<lparr>embedding := Some (embs' ! j)\<rparr>" using j(4) by simp
    finally show ?thesis unfolding e step Suc by simp
  qed
qed

subsection \<open>Usage\<close>

lemma foldl_update_meta_named:
  "meta_model m \<noteq> [] \<Longrightarrow>
   foldl update_meta m rs =
     m\<lparr>meta_usage :=
        \<lparr>prompt_tokens = prompt_tokens (meta_usage m) + sum_list (map (\<lambda>r. prompt_tokens (usage r)) rs),
         total_tokens = total_tokens (meta_usage m) + sum_list (map (\<lambda>r. total_tokens (usage r)) rs)\<rparr>\<rparr>"
proof (induction rs arbitrary: m)
  case Nil
  then show ?case by simp
next
  case (Cons r rs)
  have "meta_model (update_meta m r) \<noteq> []" using Cons.prems by (simp add: update_meta_def)
  from Cons.IH[OF this] Cons.prems show ?case by (simp add: update_meta_def)
qed

lemma foldl_update_meta_initial:
  "\<forall>r \<in> set rs. model r \<noteq> [] \<Longrightarrow>
   foldl update_meta initial_meta rs =
     \<lparr>meta_model = (case rs of [] \<Rightarrow> [] | r # _ \<Rightarrow> model r),
      meta_usage =
        \<lparr>prompt_tokens = sum_list (map (\<lambda>r. prompt_tokens (usage r)) rs),
         total_tokens = sum_list (map (\<lambda>r. total_tokens (usage r)) rs)\<rparr>\<rparr>"
proof (cases rs)
  case Nil
  then show ?thesis by (simp add: initial_meta_def)
next
  case (Cons r rs')
  assume a: "\<forall>r \<in> set rs. model r \<noteq> []"
  have m: "meta_model (update_meta initial_meta r) \<noteq> []"
    using a Cons by (simp add: update_meta_def initial_meta_def)
  show ?thesis
    using foldl_update_meta_named[OF m, of rs'] Cons
    by (cases "usage r") (simp add: update_meta_def initial_meta_def)
qed

subsection \<open>The prepared text\<close>






subsection \<open>The loop over the batches\<close>

lemma length_call_all: "call_all create s reqs = (outs, s') \<Longrightarrow> length outs = length reqs"
  by (induction reqs arbitrary: s outs s') (auto split: prod.splits)

lemma embed_loop_trace:
  assumes "call_all create s (map (embed_args self) bs) = (outs, s')"
    and "\<forall>out \<in> set outs. \<not> raises out"
  shows "embed_loop create self bs all_embeddings m s lg =
    (Inr (all_embeddings @ concat (map data (responses outs)), foldl update_meta m (responses outs)),
     s', lg @ failure_log bs outs)"
  using assms
proof (induction bs arbitrary: all_embeddings m s lg outs s')
  case Nil
  then show ?case by simp
next
  case (Cons b bs)
  obtain out s1 where c: "create s (embed_args self b) = (out, s1)"
    by (cases "create s (embed_args self b)")
  obtain outs1 s2 where r: "call_all create s1 (map (embed_args self) bs) = (outs1, s2)"
    by (cases "call_all create s1 (map (embed_args self) bs)")
  from Cons.prems c r have o: "outs = out # outs1" and s: "s2 = s'" by auto
  from Cons.prems(2) o have nr: "\<not> raises out" and nrs: "\<forall>out \<in> set outs1. \<not> raises out"
    by auto
  note IH = Cons.IH[OF r[unfolded s] nrs]
  show ?case
  proof (cases out)
    case (Returned resp)
    then show ?thesis using c o s IH by simp
  next
    case (APIError e)
    then show ?thesis using c o s IH by simp
  next
    case (Raises x)
    then show ?thesis using nr by simp
  qed
qed

lemma embed_loop_raises:
  "embed_loop create self bs all_embeddings m s lg = (Inl x, s', lg') \<Longrightarrow>
   \<exists>s0 req. fst (create s0 req) = Raises x"
proof (induction bs arbitrary: all_embeddings m s lg)
  case Nil
  then show ?case by simp
next
  case (Cons b bs)
  obtain out s1 where c: "create s (embed_args self b) = (out, s1)"
    by (cases "create s (embed_args self b)")
  show ?case
  proof (cases out)
    case (Returned resp)
    with Cons.prems c have "embed_loop create self bs (all_embeddings @ data resp) (update_meta m resp) s1 lg = (Inl x, s', lg')"
      by simp
    then show ?thesis by (rule Cons.IH)
  next
    case (APIError e)
    with Cons.prems c have "embed_loop create self bs all_embeddings m s1 (lg @ [failure_message b e]) = (Inl x, s', lg')"
      by simp
    then show ?thesis by (rule Cons.IH)
  next
    case (Raises y)
    with Cons.prems c have "y = x" by simp
    with Raises c have "fst (create s (embed_args self b)) = Raises x" by simp
    then show ?thesis by blast
  qed
qed

lemma all_documents_Some: "all_documents objs = Some docs \<longleftrightarrow> objs = map Doc docs"
proof (induction objs arbitrary: docs)
  case Nil
  then show ?case by auto
next
  case (Cons obj objs)
  show ?case
  proof (cases obj)
    case (Doc a)
    then show ?thesis using Cons.IH by (cases docs) auto
  next
    case (Other v)
    then show ?thesis by (cases docs) auto
  qed
qed

lemma run_trace:
  assumes "1 \<le> batch_size self"
    and "bs = batches_of (nat (batch_size self)) (prepare_texts_to_embed self (map (heap w) docs))"
    and "call_all create (remote w) (map (embed_args self) bs) = (outs, s')"
    and "\<forall>out \<in> set outs. \<not> raises out"
  shows "run create self (PyList (map Doc docs)) w =
     (Inr \<lparr>documents = docs, result_meta = foldl update_meta initial_meta (responses outs)\<rparr>,
      \<lparr>heap = assign (heap w) docs (concat (map data (responses outs))),
       remote = s', log = log w @ failure_log bs outs\<rparr>)"
proof -
  have d: "all_documents (map Doc docs) = Some docs" by (simp add: all_documents_Some)
  have b: "batched (prepare_texts_to_embed self (map (heap w) docs)) (batch_size self) = Inr bs"
    using assms(1,2) by (simp add: batched_def)
  have "embed_loop create self bs [] initial_meta (remote w) (log w) =
    (Inr ([] @ concat (map data (responses outs)), foldl update_meta initial_meta (responses outs)),
     s', log w @ failure_log bs outs)"
    using assms(3,4) by (rule embed_loop_trace)
  then show ?thesis by (simp add: run_def d b embed_batch_def)
qed

lemma well_formed_outcomes:
  "list_all2 well_formed reqs outs \<Longrightarrow>
   (\<forall>out \<in> set outs. \<not> raises out)
   \<and> length (responses outs) = length reqs
   \<and> map (\<lambda>r. length (data r)) (responses outs) = map (\<lambda>req. length (req_input req)) reqs
   \<and> (\<forall>r \<in> set (responses outs). model r \<noteq> [])"
proof (induction reqs outs rule: list_all2_induct)
  case Nil
  then show ?case by simp
next
  case (Cons req reqs out outs)
  then show ?case by (cases out) auto
qed

lemma well_formed_no_failures:
  "list_all2 well_formed reqs outs \<Longrightarrow> failure_log bs outs = []"
proof (induction reqs outs arbitrary: bs rule: list_all2_induct)
  case Nil
  then show ?case by simp
next
  case (Cons req reqs out outs)
  then show ?case by (cases out; cases bs) auto
qed

lemma length_concat_data:
  assumes "0 < n" and "list_all2 well_formed (map (embed_args self) (batches_of n texts)) outs"
  shows "length (concat (map data (responses outs))) = length texts"
proof -
  let ?bs = "batches_of n texts"
  from well_formed_outcomes[OF assms(2)]
  have m: "map (\<lambda>r. length (data r)) (responses outs) = map (\<lambda>req. length (req_input req)) (map (embed_args self) ?bs)"
    by blast
  have "length (concat (map data (responses outs))) = sum_list (map (\<lambda>r. length (data r)) (responses outs))"
    by (simp add: length_concat comp_def)
  also have "\<dots> = sum_list (map length ?bs)"
    unfolding m by (simp add: comp_def embed_args_def)
  also have "\<dots> = length (concat ?bs)" by (simp add: length_concat)
  also have "\<dots> = length texts" using assms(1) by (simp add: concat_batches_of)
  finally show ?thesis .
qed

lemma map_assign_distinct:
  assumes "distinct as" and "length embs = length as"
  shows "map (assign h as embs) as = map2 (\<lambda>a emb. (h a)\<lparr>embedding := Some emb\<rparr>) as embs"
proof (rule nth_equalityI)
  show "length (map (assign h as embs) as) = length (map2 (\<lambda>a emb. (h a)\<lparr>embedding := Some emb\<rparr>) as embs)"
    using assms(2) by simp
next
  fix i assume "i < length (map (assign h as embs) as)"
  then have i: "i < length as" "i < length embs" using assms(2) by simp_all
  from assign_distinct[OF assms(1) i, of h] i
  show "map (assign h as embs) as ! i = map2 (\<lambda>a emb. (h a)\<lparr>embedding := Some emb\<rparr>) as embs ! i"
    by simp
qed

lemma prepare_texts_to_embed_distinct:
  "distinct (map doc_id docs) \<Longrightarrow>
   prepare_texts_to_embed self docs = map (\<lambda>d. (doc_id d, text_to_embed self d)) docs"
  using prepare_loop_distinct[of docs "[]" self] by (simp add: prepare_texts_to_embed_def)

lemma distinct_ids_distinct_addrs:
  "distinct (map (\<lambda>a. doc_id (h a)) docs) \<Longrightarrow> distinct docs"
  by (rule distinct_map[THEN iffD1, THEN conjunct1])

lemma length_prepare_le: "length (prepare_texts_to_embed self docs) \<le> length docs"
  unfolding length_prepare_texts_to_embed using card_length[of "map doc_id docs"] by simp

lemma length_prepare_eq_iff:
  "length (prepare_texts_to_embed self docs) = length docs \<longleftrightarrow> distinct (map doc_id docs)"
  unfolding length_prepare_texts_to_embed using card_distinct[of "map doc_id docs"] distinct_card[of "map doc_id docs"]
  by auto

lemma call_all_recording:
  "\<exists>outs. call_all (recording_service failing) s reqs = (outs, s @ reqs)
     \<and> (\<forall>out \<in> set outs. \<not> raises out)"
proof (induction reqs arbitrary: s)
  case Nil
  then show ?case by simp
next
  case (Cons r reqs)
  from Cons.IH[of "s @ [r]"] show ?case
    by (auto simp: recording_service_def)
qed

subsection \<open>Runs in which the service raises\<close>

lemma raised_None: "raised outs = None \<longleftrightarrow> (\<forall>out \<in> set outs. \<not> raises out)"
  by (induction outs rule: raised.induct) auto

lemma raised_Some: "raised outs = Some x \<Longrightarrow> Raises x \<in> set outs"
  by (induction outs rule: raised.induct) auto

lemma length_call_until_raise:
  "call_until_raise create s reqs = (outs, s') \<Longrightarrow>
   length outs \<le> length reqs \<and> (raised outs = None \<longrightarrow> length outs = length reqs)"
proof (induction reqs arbitrary: s outs s')
  case Nil
  then show ?case by simp
next
  case (Cons r reqs)
  obtain out s1 where c: "create s r = (out, s1)" by (cases "create s r")
  obtain outs1 s2 where r: "call_until_raise create s1 reqs = (outs1, s2)"
    by (cases "call_until_raise create s1 reqs")
  show ?case
  proof (cases out)
    case (Returned resp)
    with Cons.prems c r have "outs = out # outs1" by simp
    with Cons.IH[OF r] Returned show ?thesis by simp
  next
    case (APIError e)
    with Cons.prems c r have "outs = out # outs1" by simp
    with Cons.IH[OF r] APIError show ?thesis by simp
  next
    case (Raises x)
    with Cons.prems c have "outs = [Raises x]" by simp
    then show ?thesis by simp
  qed
qed

lemma embed_loop_until_raise:
  assumes "call_until_raise create s (map (embed_args self) bs) = (outs, s')"
  shows "embed_loop create self bs all_embeddings m s lg =
    ((case raised outs of
        None \<Rightarrow> Inr (all_embeddings @ concat (map data (responses outs)),
                    foldl update_meta m (responses outs))
      | Some x \<Rightarrow> Inl x),
     s',
     lg @ concat (map2 (\<lambda>b out. case out of
            APIError e \<Rightarrow>
              [''Failed embedding of documents '' @ join '', '' (map fst b) @ '' caused by '' @ e]
          | _ \<Rightarrow> []) bs outs))"
  using assms
proof (induction bs arbitrary: all_embeddings m s lg outs s')
  case Nil
  then show ?case by simp
next
  case (Cons b bs)
  obtain out s1 where c: "create s (embed_args self b) = (out, s1)"
    by (cases "create s (embed_args self b)")
  obtain outs1 s2 where r: "call_until_raise create s1 (map (embed_args self) bs) = (outs1, s2)"
    by (cases "call_until_raise create s1 (map (embed_args self) bs)")
  show ?case
  proof (cases out)
    case (Returned resp)
    with Cons.prems c r have o: "outs = out # outs1" and s: "s2 = s'" by simp_all
    from Cons.IH[OF r[unfolded s]] show ?thesis using c o Returned
      by (simp split: option.splits)
  next
    case (APIError e)
    with Cons.prems c r have o: "outs = out # outs1" and s: "s2 = s'" by simp_all
    from Cons.IH[OF r[unfolded s]] show ?thesis using c o APIError
      by (simp add: failure_message_def split: option.splits)
  next
    case (Raises x)
    with Cons.prems c have "outs = [Raises x]" "s1 = s'" by simp_all
    then show ?thesis using c Raises by simp
  qed
qed

lemma length_entries:
  "length outs \<le> length bs \<Longrightarrow>
   length (concat (map2 (\<lambda>b out. case out of
            APIError e \<Rightarrow>
              [''Failed embedding of documents '' @ join '', '' (map fst b) @ '' caused by '' @ e]
          | _ \<Rightarrow> []) bs outs)) = length (filter api_error outs)"
proof (induction outs arbitrary: bs)
  case Nil
  then show ?case by simp
next
  case (Cons out outs)
  then obtain b bs' where bs: "bs = b # bs'" by (cases bs) auto
  with Cons.prems have "length outs \<le> length bs'" by simp
  from Cons.IH[OF this] show ?case unfolding bs by (cases out) simp_all
qed

lemma raised_None_iff: "raised outs = None \<longleftrightarrow> (\<forall>x. Raises x \<notin> set outs)"
  by (induction outs rule: raised.induct) auto

subsection \<open>Serialized secrets\<close>

lemma optional_secret_to_dict_env:
  assumes "\<forall>t. sec \<noteq> Some (TokenSecret t)"
  shows "\<exists>kd. optional_secret_to_dict sec = Inr kd
     \<and> map_option secret_from_dict kd = sec
     \<and> (sec = None \<longrightarrow> kd = None)
     \<and> (\<forall>vars st. sec = Some (EnvVarSecret vars st) \<longrightarrow>
           kd = Some \<lparr>descr_env_vars = vars, descr_strict = st\<rparr>)"
proof (cases sec)
  case None
  then show ?thesis by (simp add: optional_secret_to_dict_def)
next
  case (Some s)
  with assms obtain vars st where "s = EnvVarSecret vars st" by (cases s) auto
  with Some show ?thesis by (simp add: optional_secret_to_dict_def secret_from_dict_def)
qed

lemma to_dict_token:
  assumes "(\<exists>t. api_key c = Some (TokenSecret t)) \<or> (\<exists>t. azure_ad_token c = Some (TokenSecret t))"
  shows "to_dict c =
    Inl (ValueError ''Cannot serialize token-based secret. Use an alternative secret type like environment variables.'')"
proof (cases "\<exists>t. api_key c = Some (TokenSecret t)")
  case True
  then show ?thesis by (auto simp: to_dict_def optional_secret_to_dict_def)
next
  case False
  with assms obtain t where t: "azure_ad_token c = Some (TokenSecret t)" by blast
  from False have "\<forall>t. api_key c \<noteq> Some (TokenSecret t)" by simp
  from optional_secret_to_dict_env[OF this] obtain kd where "optional_secret_to_dict (api_key c) = Inr kd"
    by blast
  with t show ?thesis by (simp add: to_dict_def optional_secret_to_dict_def)
qed

text \<open>The definitions a concrete run unfolds.\<close>

lemmas eval_defs = run_def example_world_def heap_of_def new_document_def example_component_def
  prepare_texts_to_embed_def text_to_embed_def content_or_empty_def replace_char_def newline_def
  embed_batch_def batched_def batches_of.simps embed_args_def fake_service_def fake_response_def
  failure_message_def update_meta_def initial_meta_def four_documents_def five_documents_def
  duplicate_documents_def recording_service_def

lemma init_returns:
  assumes "endpoint_or_env (arg_azure_endpoint a) env = Some ep" and "ep \<noteq> []"
    and "\<not> (arg_api_key a = None \<and> arg_azure_ad_token a = None)"
    and "resolve_timeout E env (arg_timeout a) = Inr t"
    and "resolve_max_retries E env (arg_max_retries a) = Inr n"
    and "resolve_secret E env (arg_api_key a) = Inr key"
    and "resolve_secret E env (arg_azure_ad_token a) = Inr token"
    and "init_http_client E (arg_http_client_kwargs a) = (Inr hc, evs)"
    and "AzureOpenAI E (client_args_of a ep t n key token hc) = None"
  shows "init E env a =
    (Inr (attributes_of a ep t n), evs @ [ClientCreated (client_args_of a ep t n key token hc)])"
  using assms by (simp add: init_def)

lemma init_Inr:
  assumes "init E env a = (Inr c, evs)"
  shows "\<exists>ep t n key token hc evs1.
     endpoint_or_env (arg_azure_endpoint a) env = Some ep \<and> ep \<noteq> []
     \<and> \<not> (arg_api_key a = None \<and> arg_azure_ad_token a = None)
     \<and> resolve_timeout E env (arg_timeout a) = Inr t
     \<and> resolve_max_retries E env (arg_max_retries a) = Inr n
     \<and> resolve_secret E env (arg_api_key a) = Inr key
     \<and> resolve_secret E env (arg_azure_ad_token a) = Inr token
     \<and> init_http_client E (arg_http_client_kwargs a) = (Inr hc, evs1)
     \<and> AzureOpenAI E (client_args_of a ep t n key token hc) = None
     \<and> c = attributes_of a ep t n
     \<and> evs = evs1 @ [ClientCreated (client_args_of a ep t n key token hc)]"
  using assms
  by (simp add: init_def Let_def split: option.splits if_splits sum.splits prod.splits)

lemma init_Inl:
  assumes "init E env a = (Inl e, evs)"
    and "endpoint_or_env (arg_azure_endpoint a) env = Some ep" and "ep \<noteq> []"
    and "\<not> (arg_api_key a = None \<and> arg_azure_ad_token a = None)"
  shows "resolve_timeout E env (arg_timeout a) = Inl e
     \<or> resolve_max_retries E env (arg_max_retries a) = Inl e
     \<or> resolve_secret E env (arg_api_key a) = Inl e
     \<or> resolve_secret E env (arg_azure_ad_token a) = Inl e
     \<or> fst (init_http_client E (arg_http_client_kwargs a)) = Inl e
     \<or> (\<exists>cargs. AzureOpenAI E cargs = Some e)"
  using assms
  by (simp add: init_def Let_def split: option.splits if_splits sum.splits prod.splits) blast+

text \<open>The definitions a concrete construction unfolds.\<close>

lemmas init_eval = init_def endpoint_or_env_def resolve_timeout_def resolve_max_retries_def
  resolve_secret_def init_http_client_def client_args_of_def attributes_of_def or_empty_def
  default_args_def example_environ_def example_externals_def List.map_filter_def

section \<open>The text preparer\<close>



section \<open>The batches\<close>

text \<open>
  C4. For every identifier-to-text mapping and every batch size of at least one, the
  batch embedder cuts the entries into consecutive groups, in the original order (their
  concatenation is the mapping); no group is empty or larger than the batch size, and
  every group but the last has exactly the batch size. A service that records its
  requests receives one request for each group, in order, with the texts of the group
  in their order, whether calls fail or not. With batch size 2 and five documents the
  groups have the sizes 2, 2 and 1.
\<close>

theorem batches_partition_in_order:
  assumes "1 \<le> n"
  shows "batched texts n = Inr (batches_of (nat n) texts)
     \<and> concat (batches_of (nat n) texts) = texts
     \<and> (\<forall>b \<in> set (batches_of (nat n) texts). b \<noteq> [] \<and> int (length b) \<le> n)
     \<and> (\<forall>i. Suc i < length (batches_of (nat n) texts) \<longrightarrow> int (length (batches_of (nat n) texts ! i)) = n)
     \<and> fst (snd (embed_batch (recording_service failing) self texts n [] lg))
         = map (\<lambda>b. \<lparr>req_model = azure_deployment self, req_input = map snd b,
                       req_dimensions = dimensions self\<rparr>) (batches_of (nat n) texts)"
proof (intro conjI)
  let ?bs = "batches_of (nat n) texts"
  from assms have pos: "0 < nat n" by simp
  show b: "batched texts n = Inr ?bs" using assms by (simp add: batched_def)
  show "concat ?bs = texts" using pos by (rule concat_batches_of)
  show "\<forall>b \<in> set ?bs. b \<noteq> [] \<and> int (length b) \<le> n"
  proof
    fix b assume "b \<in> set ?bs"
    then have "b \<noteq> [] \<and> length b \<le> nat n" by (rule batches_of_sizes)
    then show "b \<noteq> [] \<and> int (length b) \<le> n" using assms by linarith
  qed
  show "\<forall>i. Suc i < length ?bs \<longrightarrow> int (length (?bs ! i)) = n"
  proof (intro allI impI)
    fix i assume "Suc i < length ?bs"
    then have "length (?bs ! i) = nat n" by (rule batches_of_full)
    then show "int (length (?bs ! i)) = n" using assms by simp
  qed
  obtain outs where c: "call_all (recording_service failing) [] (map (embed_args self) ?bs) = (outs, [] @ map (embed_args self) ?bs)"
    and nr: "\<forall>out \<in> set outs. \<not> raises out"
    using call_all_recording[of failing "[]" "map (embed_args self) ?bs"] by blast
  from embed_loop_trace[OF c nr, of "[]" initial_meta lg]
  show "fst (snd (embed_batch (recording_service failing) self texts n [] lg))
         = map (\<lambda>b. \<lparr>req_model = azure_deployment self, req_input = map snd b,
                       req_dimensions = dimensions self\<rparr>) ?bs"
    by (simp add: embed_batch_def b embed_args_def)
qed

theorem batches_partition_in_order_witness:
  "batched (prepare_texts_to_embed example_component five_documents) 2
     = Inr [[(''a'', ''x''), (''b'', ''xx'')], [(''c'', ''xxx''), (''d'', ''xxxx'')], [(''e'', ''xxxxx'')]]
   \<and> map length (batches_of 2 (prepare_texts_to_embed example_component five_documents)) = [2, 2, 1]
   \<and> map req_input (fst (snd (embed_batch (recording_service [1]) example_component
         (prepare_texts_to_embed example_component five_documents) 2 [] [])))
     = [[''x'', ''xx''], [''xxx'', ''xxxx''], [''xxxxx'']]"
proof -
  have p: "prepare_texts_to_embed example_component five_documents
     = [(''a'', ''x''), (''b'', ''xx''), (''c'', ''xxx''), (''d'', ''xxxx''), (''e'', ''xxxxx'')]"
    by (simp add: eval_defs)
  have b: "batches_of 2 [(''a'', ''x''), (''b'', ''xx''), (''c'', ''xxx''), (''d'', ''xxxx''), (''e'', ''xxxxx'')]
     = [[(''a'', ''x''), (''b'', ''xx'')], [(''c'', ''xxx''), (''d'', ''xxxx'')], [(''e'', ''xxxxx'')]]"
    by (simp add: batches_of.simps)
  have one: "(1::int) \<le> 2" by simp
  from batches_partition_in_order[OF one, of "prepare_texts_to_embed example_component five_documents" "[1]" example_component "[]"]
  show ?thesis by (simp add: p b)
qed

section \<open>Failures of the remote call\<close>

text \<open>
  C3. Take any run on a list of documents: the service may answer each call with a
  response, with \<^verbatim>\<open>APIError\<close> or with another exception, and the requests
  of the batches are sent in order, each at most once (nothing is retried), until one
  raises an exception that is not \<^verbatim>\<open>APIError\<close>. With a batch size of at
  least one, \<^verbatim>\<open>run\<close> raises only if such an exception was raised, and raises
  that one: an \<^verbatim>\<open>APIError\<close> never makes it raise. When no call raises
  another exception every batch is sent, the run returns, and the vectors attached are
  those of the responses alone, so a failed batch appends none. In every case the log
  grows by exactly one entry for each call that raised \<^verbatim>\<open>APIError\<close>, in
  order, and the entry reads \<open>Failed embedding of documents\<close>, the identifiers of
  the documents of that batch joined by a comma and a space, \<open>caused by\<close>, and the
  text of the error. With a batch size below one the run raises the
  \<^verbatim>\<open>ValueError\<close> of \<^verbatim>\<open>batched\<close> before any call.
\<close>

theorem api_errors_are_logged_not_raised:
  assumes "bs = batches_of (nat (batch_size self)) (prepare_texts_to_embed self (map (heap w) docs))"
    and "call_until_raise create (remote w) (map (embed_args self) bs) = (outs, s')"
  shows "(batch_size self < 1 \<longrightarrow>
        run create self (PyList (map Doc docs)) w = (Inl (ValueError ''n must be at least one''), w))
     \<and> (1 \<le> batch_size self \<longrightarrow>
        run create self (PyList (map Doc docs)) w =
          ((case raised outs of
              None \<Rightarrow> Inr \<lparr>documents = docs,
                           result_meta = foldl update_meta initial_meta (responses outs)\<rparr>
            | Some x \<Rightarrow> Inl x),
           \<lparr>heap = (case raised outs of
                      None \<Rightarrow> assign (heap w) docs (concat (map data (responses outs)))
                    | Some x \<Rightarrow> heap w),
            remote = s',
            log = log w @ concat (map2 (\<lambda>b out. case out of
                    APIError e \<Rightarrow>
                      [''Failed embedding of documents '' @ join '', '' (map fst b)
                       @ '' caused by '' @ e]
                  | _ \<Rightarrow> []) bs outs)\<rparr>))
     \<and> (raised outs = None \<longleftrightarrow> (\<forall>x. Raises x \<notin> set outs))
     \<and> (\<forall>x. raised outs = Some x \<longrightarrow> Raises x \<in> set outs)
     \<and> length outs \<le> length bs
     \<and> (raised outs = None \<longrightarrow> length outs = length bs)
     \<and> length (concat (map2 (\<lambda>b out. case out of
                    APIError e \<Rightarrow>
                      [''Failed embedding of documents '' @ join '', '' (map fst b)
                       @ '' caused by '' @ e]
                  | _ \<Rightarrow> []) bs outs)) = length (filter api_error outs)"
proof -
  define entries where "entries = concat (map2 (\<lambda>b out. case out of
                    APIError e \<Rightarrow>
                      [''Failed embedding of documents '' @ join '', '' (map fst b)
                       @ '' caused by '' @ e]
                  | _ \<Rightarrow> []) bs outs)"
  have d: "all_documents (map Doc docs) = Some docs" by (simp add: all_documents_Some)
  from length_call_until_raise[OF assms(2)]
  have le: "length outs \<le> length bs" and eq: "raised outs = None \<longrightarrow> length outs = length bs"
    by simp_all
  have n: "length entries = length (filter api_error outs)"
    unfolding entries_def using le by (rule length_entries)
  have small: "run create self (PyList (map Doc docs)) w = (Inl (ValueError ''n must be at least one''), w)"
    if "batch_size self < 1"
    using that by (simp add: run_def d embed_batch_def batched_def)
  have l: "embed_loop create self bs [] initial_meta (remote w) (log w) =
    ((case raised outs of
        None \<Rightarrow> Inr ([] @ concat (map data (responses outs)),
                    foldl update_meta initial_meta (responses outs))
      | Some x \<Rightarrow> Inl x),
     s', log w @ entries)"
    unfolding entries_def using assms(2) by (rule embed_loop_until_raise)
  have big: "run create self (PyList (map Doc docs)) w =
          ((case raised outs of
              None \<Rightarrow> Inr \<lparr>documents = docs,
                           result_meta = foldl update_meta initial_meta (responses outs)\<rparr>
            | Some x \<Rightarrow> Inl x),
           \<lparr>heap = (case raised outs of
                      None \<Rightarrow> assign (heap w) docs (concat (map data (responses outs)))
                    | Some x \<Rightarrow> heap w),
            remote = s', log = log w @ entries\<rparr>)"
    if "1 \<le> batch_size self"
  proof -
    have b: "batched (prepare_texts_to_embed self (map (heap w) docs)) (batch_size self) = Inr bs"
      using that assms(1) by (simp add: batched_def)
    show ?thesis
      by (cases "raised outs") (simp_all add: run_def d b embed_batch_def l)
  qed
  have some: "\<forall>x. raised outs = Some x \<longrightarrow> Raises x \<in> set outs"
    using raised_Some by blast
  from small big raised_None_iff[of outs] some le eq n
  show ?thesis unfolding entries_def by blast
qed

theorem api_errors_are_logged_not_raised_witness:
  "run (faulty_service [0] []) example_component (PyList [Doc 0, Doc 1, Doc 2, Doc 3])
     (example_world four_documents 0) =
   (Inr \<lparr>documents = [0, 1, 2, 3],
         result_meta = \<lparr>meta_model = ''ada'', meta_usage = \<lparr>prompt_tokens = 2, total_tokens = 2\<rparr>\<rparr>\<rparr>,
    \<lparr>heap = assign (heap_of four_documents) [0, 1, 2, 3] [[3], [4]], remote = 2,
     log = [''Failed embedding of documents a, b caused by rate limit'']\<rparr>)
   \<and> run (faulty_service [0, 1] [3]) (example_component\<lparr>batch_size := 1\<rparr>)
       (PyList [Doc 0, Doc 1, Doc 2, Doc 3]) (example_world four_documents 0) =
   (Inl (ExternalError ''connection reset''),
    \<lparr>heap = heap_of four_documents, remote = 4,
     log = [''Failed embedding of documents a caused by rate limit'',
            ''Failed embedding of documents b caused by rate limit'']\<rparr>)"
proof -
  let ?w = "example_world four_documents (0::nat)"
  let ?self1 = "example_component\<lparr>batch_size := 1\<rparr>"
  let ?bs2 = "[[(''a'', ''x''), (''b'', ''xx'')], [(''c'', ''xxx''), (''d'', ''xxxx'')]]"
  let ?outs2 = "[APIError ''rate limit'',
                 Returned (fake_response ''ada'' (embed_args example_component [(''c'', ''xxx''), (''d'', ''xxxx'')]))]"
  let ?bs1 = "[[(''a'', ''x'')], [(''b'', ''xx'')], [(''c'', ''xxx'')], [(''d'', ''xxxx'')]]"
  let ?outs1 = "[APIError ''rate limit'', APIError ''rate limit'',
                 Returned (fake_response ''ada'' (embed_args ?self1 [(''c'', ''xxx'')])),
                 Raises (ExternalError ''connection reset'')]"
  have a1: "?bs2 = batches_of (nat (batch_size example_component))
      (prepare_texts_to_embed example_component (map (heap ?w) [0, 1, 2, 3]))"
    by (simp add: eval_defs)
  have a2: "call_until_raise (faulty_service [0] []) (remote ?w) (map (embed_args example_component) ?bs2)
      = (?outs2, 2)"
    by (simp add: eval_defs faulty_service_def)
  have b1: "?bs1 = batches_of (nat (batch_size ?self1))
      (prepare_texts_to_embed ?self1 (map (heap ?w) [0, 1, 2, 3]))"
    by (simp add: eval_defs)
  have b2: "call_until_raise (faulty_service [0, 1] [3]) (remote ?w) (map (embed_args ?self1) ?bs1)
      = (?outs1, 4)"
    by (simp add: eval_defs faulty_service_def)
  have s: "1 \<le> batch_size example_component" "1 \<le> batch_size ?self1"
    by (simp_all add: example_component_def)
  from api_errors_are_logged_not_raised[OF a1 a2] api_errors_are_logged_not_raised[OF b1 b2] s
  show ?thesis
    by (simp add: eval_defs)
qed

section \<open>The type check of the entry point\<close>

text \<open>
  C9. When the argument of \<^verbatim>\<open>run\<close> is not a list whose elements are all
  documents, \<^verbatim>\<open>run\<close> raises the type error and leaves the world as it was:
  no call of the service, no log entry, no document changed. When the argument is such a
  list (the empty list too), \<^verbatim>\<open>run\<close> raises no type error, provided the
  service itself raises none.
\<close>

theorem run_type_error:
  "((\<forall>docs. arg \<noteq> PyList (map Doc docs)) \<longrightarrow>
      run create self arg w =
        (Inl (TypeError ''Input must be a list of Document instances. For strings, use AzureOpenAITextEmbedder.''), w))
   \<and> ((\<exists>docs. arg = PyList (map Doc docs)) \<and> (\<forall>s req m. fst (create s req) \<noteq> Raises (TypeError m)) \<longrightarrow>
      (\<forall>m. fst (run create self arg w) \<noteq> Inl (TypeError m)))"
proof (intro conjI impI allI)
  assume no: "\<forall>docs. arg \<noteq> PyList (map Doc docs)"
  show "run create self arg w =
        (Inl (TypeError ''Input must be a list of Document instances. For strings, use AzureOpenAITextEmbedder.''), w)"
  proof (cases arg)
    case (NotAList v)
    then show ?thesis by (simp add: run_def)
  next
    case (PyList objs)
    with no have "all_documents objs = None"
      using all_documents_Some[of objs] by (cases "all_documents objs") auto
    with PyList show ?thesis by (simp add: run_def)
  qed
next
  fix m
  assume a: "(\<exists>docs. arg = PyList (map Doc docs)) \<and> (\<forall>s req m. fst (create s req) \<noteq> Raises (TypeError m))"
  then obtain docs where arg: "arg = PyList (map Doc docs)" by blast
  have d: "all_documents (map Doc docs) = Some docs" by (simp add: all_documents_Some)
  let ?texts = "prepare_texts_to_embed self (map (heap w) docs)"
  show "fst (run create self arg w) \<noteq> Inl (TypeError m)"
  proof
    assume r: "fst (run create self arg w) = Inl (TypeError m)"
    obtain res s' lg' where e: "embed_batch create self ?texts (batch_size self) (remote w) (log w) = (res, s', lg')"
      by (cases "embed_batch create self ?texts (batch_size self) (remote w) (log w)")
    from r e arg d have res: "res = Inl (TypeError m)"
      by (cases res) (auto simp: run_def split: prod.splits)
    show False
    proof (cases "batch_size self < 1")
      case True
      with e res show False by (simp add: embed_batch_def batched_def)
    next
      case False
      with e res have "embed_loop create self (batches_of (nat (batch_size self)) ?texts) [] initial_meta (remote w) (log w)
          = (Inl (TypeError m), s', lg')"
        by (simp add: embed_batch_def batched_def)
      from embed_loop_raises[OF this] a show False by blast
    qed
  qed
qed

theorem run_type_error_witness:
  "run (fake_service [] ''ada'') example_component (NotAList (PStr ''I love pizza!'')) (example_world four_documents 0) =
     (Inl (TypeError ''Input must be a list of Document instances. For strings, use AzureOpenAITextEmbedder.''),
      example_world four_documents 0)
   \<and> run (fake_service [] ''ada'') example_component (PyList [Doc 0, Other (PStr ''I love pizza!'')]) (example_world four_documents 0) =
     (Inl (TypeError ''Input must be a list of Document instances. For strings, use AzureOpenAITextEmbedder.''),
      example_world four_documents 0)
   \<and> fst (run (fake_service [] ''ada'') example_component (PyList []) (example_world four_documents 0)) \<noteq> Inl (TypeError ''Input must be a list of Document instances. For strings, use AzureOpenAITextEmbedder.'')
   \<and> fst (run (fake_service [] ''ada'') example_component (PyList [Doc 0]) (example_world four_documents 0)) \<noteq> Inl (TypeError ''Input must be a list of Document instances. For strings, use AzureOpenAITextEmbedder.'')"
proof -
  let ?c = "fake_service [] ''ada''"
  let ?w = "example_world four_documents (0::nat)"
  have n1: "\<forall>docs. NotAList (PStr ''I love pizza!'') \<noteq> PyList (map Doc docs)" by simp
  have n2: "\<forall>docs. PyList [Doc 0, Other (PStr ''I love pizza!'')] \<noteq> PyList (map Doc docs)"
    by (auto simp: Cons_eq_map_conv)
  have y1: "\<exists>docs. PyList [] = PyList (map Doc docs)" by simp
  have y2: "\<exists>docs. PyList [Doc 0] = PyList (map Doc docs)" by (rule exI[of _ "[0]"]) simp
  have c: "\<forall>s req m. fst (?c s req) \<noteq> Raises (TypeError m)" by (simp add: fake_service_def)
  from run_type_error[of "NotAList (PStr ''I love pizza!'')" ?c example_component ?w] n1
    run_type_error[of "PyList [Doc 0, Other (PStr ''I love pizza!'')]" ?c example_component ?w] n2
    run_type_error[of "PyList []" ?c example_component ?w] y1
    run_type_error[of "PyList [Doc 0]" ?c example_component ?w] y2 c
  show ?thesis by blast
qed

section \<open>A run in which every batch succeeds\<close>

text \<open>
  C2, as amended. For a list of documents with pairwise distinct identifiers and a batch
  size of at least one, if every call of the service returns one vector for each text of
  its request under a model name that is not empty, then \<^verbatim>\<open>run\<close> returns
  the same list of documents in the same order; there are as many vectors as documents,
  and each document is as it was but for its embedding, which is the vector at its
  position; the prompt and total token counts of the result are the sums of the counts of
  the responses, one response for each batch; and nothing is logged.
\<close>

theorem run_all_batches_succeed:
  assumes "distinct (map (\<lambda>a. doc_id (heap w a)) docs)"
    and "1 \<le> batch_size self"
    and "bs = batches_of (nat (batch_size self)) (prepare_texts_to_embed self (map (heap w) docs))"
    and "call_all create (remote w) (map (embed_args self) bs) = (outs, s')"
    and "list_all2 well_formed (map (embed_args self) bs) outs"
  shows "\<exists>w'. run create self (PyList (map Doc docs)) w =
       (Inr \<lparr>documents = docs,
             result_meta =
               \<lparr>meta_model = (case responses outs of [] \<Rightarrow> [] | r # _ \<Rightarrow> model r),
                meta_usage =
                  \<lparr>prompt_tokens = sum_list (map (\<lambda>r. prompt_tokens (usage r)) (responses outs)),
                   total_tokens = sum_list (map (\<lambda>r. total_tokens (usage r)) (responses outs))\<rparr>\<rparr>\<rparr>,
        w')
     \<and> length (responses outs) = length bs
     \<and> length (concat (map data (responses outs))) = length docs
     \<and> map (heap w') docs =
         map2 (\<lambda>a emb. (heap w a)\<lparr>embedding := Some emb\<rparr>) docs (concat (map data (responses outs)))
     \<and> remote w' = s' \<and> log w' = log w"
proof -
  let ?texts = "prepare_texts_to_embed self (map (heap w) docs)"
  let ?embs = "concat (map data (responses outs))"
  from well_formed_outcomes[OF assms(5)]
  have nr: "\<forall>out \<in> set outs. \<not> raises out"
    and len: "length (responses outs) = length bs"
    and named: "\<forall>r \<in> set (responses outs). model r \<noteq> []"
    by simp_all
  have nf: "failure_log bs outs = []" using assms(5) by (rule well_formed_no_failures)
  have "distinct (map doc_id (map (heap w) docs))" using assms(1) by (simp add: comp_def)
  then have "length ?texts = length docs"
    by (simp add: prepare_texts_to_embed_distinct)
  moreover have "length ?embs = length ?texts"
    using assms(2,5) unfolding assms(3) by (intro length_concat_data) simp_all
  ultimately have le: "length ?embs = length docs" by simp
  have dd: "distinct docs" using assms(1) by (rule distinct_ids_distinct_addrs)
  note r = run_trace[OF assms(2,3,4) nr]
  show ?thesis
    unfolding r foldl_update_meta_initial[OF named] nf
    using len le map_assign_distinct[OF dd le, of "heap w"] by simp
qed

theorem run_all_batches_succeed_witness:
  "\<exists>w'. run (fake_service [] ''ada'') example_component (PyList [Doc 0, Doc 1, Doc 2, Doc 3])
           (example_world four_documents 0) =
       (Inr \<lparr>documents = [0, 1, 2, 3],
             result_meta = \<lparr>meta_model = ''ada'', meta_usage = \<lparr>prompt_tokens = 4, total_tokens = 4\<rparr>\<rparr>\<rparr>,
        w')
     \<and> map (\<lambda>a. embedding (heap w' a)) [0, 1, 2, 3] = [Some [1], Some [2], Some [3], Some [4]]
     \<and> map (\<lambda>a. doc_id (heap w' a)) [0, 1, 2, 3] = [''a'', ''b'', ''c'', ''d'']
     \<and> remote w' = 2 \<and> log w' = []"
proof -
  let ?self = example_component
  let ?w = "example_world four_documents (0::nat)"
  let ?bs = "[[(''a'', ''x''), (''b'', ''xx'')], [(''c'', ''xxx''), (''d'', ''xxxx'')]]"
  let ?outs = "[Returned (fake_response ''ada'' (embed_args ?self [(''a'', ''x''), (''b'', ''xx'')])),
                Returned (fake_response ''ada'' (embed_args ?self [(''c'', ''xxx''), (''d'', ''xxxx'')]))]"
  have 1: "distinct (map (\<lambda>a. doc_id (heap ?w a)) [0, 1, 2, 3])" by (simp add: eval_defs)
  have 2: "1 \<le> batch_size ?self" by (simp add: example_component_def)
  have 3: "?bs = batches_of (nat (batch_size ?self)) (prepare_texts_to_embed ?self (map (heap ?w) [0, 1, 2, 3]))"
    by (simp add: eval_defs)
  have 4: "call_all (fake_service [] ''ada'') (remote ?w) (map (embed_args ?self) ?bs) = (?outs, 2)"
    by (simp add: eval_defs)
  have 5: "list_all2 well_formed (map (embed_args ?self) ?bs) ?outs"
    by (simp add: embed_args_def fake_response_def)
  from run_all_batches_succeed[OF 1 2 3 4 5] obtain w' where
    r: "run (fake_service [] ''ada'') ?self (PyList (map Doc [0, 1, 2, 3])) ?w =
       (Inr \<lparr>documents = [0, 1, 2, 3],
             result_meta =
               \<lparr>meta_model = (case responses ?outs of [] \<Rightarrow> [] | r # _ \<Rightarrow> model r),
                meta_usage =
                  \<lparr>prompt_tokens = sum_list (map (\<lambda>r. prompt_tokens (usage r)) (responses ?outs)),
                   total_tokens = sum_list (map (\<lambda>r. total_tokens (usage r)) (responses ?outs))\<rparr>\<rparr>\<rparr>,
        w')"
    and h: "map (heap w') [0, 1, 2, 3] =
         map2 (\<lambda>a emb. (heap ?w a)\<lparr>embedding := Some emb\<rparr>) [0, 1, 2, 3] (concat (map data (responses ?outs)))"
    and s: "remote w' = 2" "log w' = log ?w"
    by blast
  from h have e: "map (\<lambda>a. embedding (heap w' a)) [0, 1, 2, 3] = [Some [1], Some [2], Some [3], Some [4]]"
    and i: "map (\<lambda>a. doc_id (heap w' a)) [0, 1, 2, 3] = [''a'', ''b'', ''c'', ''d'']"
    by (simp_all add: eval_defs)
  from r have "run (fake_service [] ''ada'') ?self (PyList [Doc 0, Doc 1, Doc 2, Doc 3]) ?w =
       (Inr \<lparr>documents = [0, 1, 2, 3],
             result_meta = \<lparr>meta_model = ''ada'', meta_usage = \<lparr>prompt_tokens = 4, total_tokens = 4\<rparr>\<rparr>\<rparr>,
        w')"
    by (simp add: fake_response_def embed_args_def)
  with e i s show ?thesis by (simp add: example_world_def)
qed

text \<open>
  Stated for every list of documents, as the specification has it, C2 does not hold. Three documents
  of which the first and the third share the identifier \<open>a\<close>, every call
  succeeding: two texts are embedded, the first document gets the vector of the third
  document's text and the third gets none. And a service that answers under an empty
  model name: the usage of the result is that of the last response (2 tokens), not the
  sum over the two responses (2 and 2).
\<close>

theorem run_all_batches_succeed_counterexample:
  "fst (run (fake_service [] ''ada'') example_component (PyList [Doc 0, Doc 1, Doc 2])
          (example_world duplicate_documents 0)) =
     Inr \<lparr>documents = [0, 1, 2],
          result_meta = \<lparr>meta_model = ''ada'', meta_usage = \<lparr>prompt_tokens = 2, total_tokens = 2\<rparr>\<rparr>\<rparr>
   \<and> map (\<lambda>a. embedding (heap (snd (run (fake_service [] ''ada'') example_component
          (PyList [Doc 0, Doc 1, Doc 2]) (example_world duplicate_documents 0))) a)) [0, 1, 2]
       = [Some [3], Some [2], None]
   \<and> log (snd (run (fake_service [] ''ada'') example_component
          (PyList [Doc 0, Doc 1, Doc 2]) (example_world duplicate_documents 0))) = []
   \<and> fst (run (fake_service [] []) example_component (PyList [Doc 0, Doc 1, Doc 2, Doc 3])
          (example_world four_documents 0)) =
     Inr \<lparr>documents = [0, 1, 2, 3],
          result_meta = \<lparr>meta_model = [], meta_usage = \<lparr>prompt_tokens = 2, total_tokens = 2\<rparr>\<rparr>\<rparr>
   \<and> map (\<lambda>r. prompt_tokens (usage r))
        (responses (fst (call_all (fake_service [] []) 0
           (map (embed_args example_component)
              (batches_of 2 (prepare_texts_to_embed example_component four_documents))))))
       = [2, 2]"
  by (simp add: eval_defs)

section \<open>A run in which a batch fails\<close>

text \<open>
  C1. The specification says that the documents of a failed batch receive no embedding and that
  the embeddings attached stay aligned with the documents whose batch succeeded. The
  code pairs the documents with the vectors by position, so it does not: with four
  documents \<open>a, b, c, d\<close> of texts \<open>x, xx, xxx, xxxx\<close>, batch size 2 and a
  service whose first call raises \<^verbatim>\<open>APIError\<close>, the run logs the failure of
  \<open>a, b\<close> and returns; the vectors of the second batch (\<open>[3]\<close> and \<open>[4]\<close>,
  of the texts of \<open>c\<close> and \<open>d\<close>) are attached to \<open>a\<close> and \<open>b\<close>, the
  documents of the failed batch, and \<open>c\<close> and \<open>d\<close>, whose batch succeeded, are left
  without an embedding.
\<close>

theorem failed_batch_misaligns_embeddings:
  "fst (run (fake_service [0] ''ada'') example_component (PyList [Doc 0, Doc 1, Doc 2, Doc 3])
          (example_world four_documents 0)) =
     Inr \<lparr>documents = [0, 1, 2, 3],
          result_meta = \<lparr>meta_model = ''ada'', meta_usage = \<lparr>prompt_tokens = 2, total_tokens = 2\<rparr>\<rparr>\<rparr>
   \<and> map (\<lambda>a. embedding (heap (snd (run (fake_service [0] ''ada'') example_component
          (PyList [Doc 0, Doc 1, Doc 2, Doc 3]) (example_world four_documents 0))) a)) [0, 1, 2, 3]
       = [Some [3], Some [4], None, None]
   \<and> log (snd (run (fake_service [0] ''ada'') example_component
          (PyList [Doc 0, Doc 1, Doc 2, Doc 3]) (example_world four_documents 0)))
       = [''Failed embedding of documents a, b caused by rate limit'']
   \<and> map (text_to_embed example_component) four_documents = [''x'', ''xx'', ''xxx'', ''xxxx'']
   \<and> data (fake_response ''ada'' \<lparr>req_model = ''text-embedding-ada-002'', req_input = [''xxx'', ''xxxx''], req_dimensions = None\<rparr>)
       = [[3], [4]]"
  by (simp add: eval_defs)

section \<open>Documents that share an identifier\<close>

text \<open>
  C10. The prepared texts are keyed by identifier: there are as many texts as distinct
  identifiers, so never more than documents, and as many as documents exactly when the
  identifiers are pairwise distinct; the text under an identifier is that of the last
  document of the list with that identifier. When every call succeeds with one vector
  for each text, there are as many vectors as texts, they are attached to the documents
  at the first positions of the list, every document that does not stand at one of
  those positions is left as it was, and no document changes but in its embedding. With the documents \<open>a, b, a\<close> the first gets
  the vector of the third document's text and the third gets none.
\<close>

theorem duplicate_identifiers:
  assumes "texts = prepare_texts_to_embed self (map (heap w) docs)"
    and "1 \<le> batch_size self"
    and "bs = batches_of (nat (batch_size self)) texts"
    and "call_all create (remote w) (map (embed_args self) bs) = (outs, s')"
    and "list_all2 well_formed (map (embed_args self) bs) outs"
  shows "length texts = card (set (map (\<lambda>a. doc_id (heap w a)) docs))
     \<and> length texts \<le> length docs
     \<and> (length texts = length docs \<longleftrightarrow> distinct (map (\<lambda>a. doc_id (heap w a)) docs))
     \<and> (\<forall>i. map_of texts i =
           map_option (text_to_embed self) (find (\<lambda>d. doc_id d = i) (rev (map (heap w) docs))))
     \<and> (\<exists>res w'. run create self (PyList (map Doc docs)) w = (Inr res, w')
           \<and> heap w' = assign (heap w) docs (concat (map data (responses outs)))
           \<and> length (concat (map data (responses outs))) = length texts
           \<and> (\<forall>a. a \<notin> set (take (length texts) docs) \<longrightarrow> heap w' a = heap w a)
           \<and> (\<forall>a. heap w' a = (heap w a)\<lparr>embedding := embedding (heap w' a)\<rparr>))"
proof -
  let ?embs = "concat (map data (responses outs))"
  have ids: "map doc_id (map (heap w) docs) = map (\<lambda>a. doc_id (heap w a)) docs" by simp
  have 1: "length texts = card (set (map (\<lambda>a. doc_id (heap w a)) docs))"
    unfolding assms(1) length_prepare_texts_to_embed ids ..
  have 2: "length texts \<le> length docs"
    unfolding assms(1) using length_prepare_le[of self "map (heap w) docs"] by simp
  have 3: "length texts = length docs \<longleftrightarrow> distinct (map (\<lambda>a. doc_id (heap w a)) docs)"
    unfolding assms(1) using length_prepare_eq_iff[of self "map (heap w) docs"] by (simp add: comp_def)
  have 4: "\<forall>i. map_of texts i =
           map_option (text_to_embed self) (find (\<lambda>d. doc_id d = i) (rev (map (heap w) docs)))"
    unfolding assms(1) prepare_texts_to_embed_def
    by (simp add: map_of_prepare_loop split: option.splits)
  from well_formed_outcomes[OF assms(5)] have nr: "\<forall>out \<in> set outs. \<not> raises out" by simp
  have le: "length ?embs = length texts"
    using assms(2,5) unfolding assms(3) by (intro length_concat_data) simp_all
  note r = run_trace[OF assms(2) assms(3)[unfolded assms(1)] assms(4) nr]
  have 5: "\<exists>res w'. run create self (PyList (map Doc docs)) w = (Inr res, w')
           \<and> heap w' = assign (heap w) docs ?embs
           \<and> length ?embs = length texts
           \<and> (\<forall>a. a \<notin> set (take (length texts) docs) \<longrightarrow> heap w' a = heap w a)
           \<and> (\<forall>a. heap w' a = (heap w a)\<lparr>embedding := embedding (heap w' a)\<rparr>)"
    unfolding r using le assign_other[of _ ?embs docs "heap w"] assign_frame[of "heap w" docs ?embs]
    by simp
  from 1 2 3 4 5 show ?thesis by blast
qed

theorem duplicate_identifiers_witness:
  "prepare_texts_to_embed example_component duplicate_documents = [(''a'', ''xxx''), (''b'', ''xx'')]
   \<and> length (prepare_texts_to_embed example_component duplicate_documents) < length duplicate_documents
   \<and> (\<exists>res w'. run (fake_service [] ''ada'') example_component (PyList [Doc 0, Doc 1, Doc 2])
          (example_world duplicate_documents 0) = (Inr res, w')
        \<and> map (\<lambda>a. embedding (heap w' a)) [0, 1, 2] = [Some [3], Some [2], None]
        \<and> heap w' 2 = new_document ''a'' ''xxx'')"
proof -
  let ?self = example_component
  let ?w = "example_world duplicate_documents (0::nat)"
  let ?texts = "[(''a'', ''xxx''), (''b'', ''xx'')]"
  let ?bs = "[[(''a'', ''xxx''), (''b'', ''xx'')]]"
  let ?outs = "[Returned (fake_response ''ada'' (embed_args ?self [(''a'', ''xxx''), (''b'', ''xx'')]))]"
  have p: "prepare_texts_to_embed ?self duplicate_documents = ?texts" by (simp add: eval_defs)
  have 1: "?texts = prepare_texts_to_embed ?self (map (heap ?w) [0, 1, 2])" by (simp add: eval_defs)
  have 2: "1 \<le> batch_size ?self" by (simp add: example_component_def)
  have 3: "?bs = batches_of (nat (batch_size ?self)) ?texts" by (simp add: eval_defs)
  have 4: "call_all (fake_service [] ''ada'') (remote ?w) (map (embed_args ?self) ?bs) = (?outs, 1)"
    by (simp add: eval_defs)
  have 5: "list_all2 well_formed (map (embed_args ?self) ?bs) ?outs"
    by (simp add: embed_args_def fake_response_def)
  from duplicate_identifiers[OF 1 2 3 4 5] obtain res w' where
    r: "run (fake_service [] ''ada'') ?self (PyList (map Doc [0, 1, 2])) ?w = (Inr res, w')"
    and h: "heap w' = assign (heap ?w) [0, 1, 2] (concat (map data (responses ?outs)))"
    and f: "\<forall>a. a \<notin> set (take (length ?texts) [0, 1, 2]) \<longrightarrow> heap w' a = heap ?w a"
    by blast
  from h have e: "map (\<lambda>a. embedding (heap w' a)) [0, 1, 2] = [Some [3], Some [2], None]"
    by (simp add: eval_defs)
  from f have "heap w' 2 = heap ?w 2" by simp
  then have u: "heap w' 2 = new_document ''a'' ''xxx''"
    by (simp add: example_world_def heap_of_def duplicate_documents_def)
  from r e u p show ?thesis by (auto simp: duplicate_documents_def)
qed

section \<open>Construction\<close>

text \<open>
  C6. When no endpoint is given to the constructor (\<^verbatim>\<open>None\<close>, or the empty
  string) and the environment variable \<^verbatim>\<open>AZURE_OPENAI_ENDPOINT\<close> is not set
  (or is empty), the construction raises the configuration error at once, whatever the
  other arguments and the externals are: it gives no component, so the error cannot come
  later, and it creates no client (the list of clients created is empty).
\<close>

theorem construction_without_endpoint:
  assumes "arg_azure_endpoint a = None \<or> arg_azure_endpoint a = Some []"
    and "env ''AZURE_OPENAI_ENDPOINT'' = None \<or> env ''AZURE_OPENAI_ENDPOINT'' = Some []"
  shows "init E env a =
    (Inl (ValueError ''Please provide an Azure endpoint or set the environment variable AZURE_OPENAI_ENDPOINT.''), [])"
  using assms by (auto simp: init_def endpoint_or_env_def)

theorem construction_without_endpoint_witness:
  "init example_externals (\<lambda>name. None) default_args =
    (Inl (ValueError ''Please provide an Azure endpoint or set the environment variable AZURE_OPENAI_ENDPOINT.''), [])"
proof -
  have 1: "arg_azure_endpoint default_args = None \<or> arg_azure_endpoint default_args = Some []"
    by (simp add: default_args_def)
  have 2: "(\<lambda>name::string. None::string option) ''AZURE_OPENAI_ENDPOINT'' = None
     \<or> (\<lambda>name::string. None::string option) ''AZURE_OPENAI_ENDPOINT'' = Some []"
    by simp
  from construction_without_endpoint[OF 1 2] show ?thesis .
qed

text \<open>
  C7, as amended. When the endpoint resolves, the construction raises the configuration
  error of the credential check, before anything else is resolved or created, when the
  API key and the identity token are both \<^verbatim>\<open>None\<close>; the token provider is
  not looked at. When one of the two is there, the construction does not stop at the
  check: it gives the component, having created the client, when the steps that follow
  (the timeout and retry defaults, the two secrets, the HTTP client, the client) raise
  nothing, and an exception it raises is one a step that follows raised.
\<close>

theorem credential_check:
  assumes "endpoint_or_env (arg_azure_endpoint a) env = Some ep" and "ep \<noteq> []"
  shows "(arg_api_key a = None \<and> arg_azure_ad_token a = None \<longrightarrow>
        init E env a =
          (Inl (ValueError ''Please provide an API key or an Azure Active Directory token.''), []))
     \<and> (\<not> (arg_api_key a = None \<and> arg_azure_ad_token a = None) \<longrightarrow>
          resolve_timeout E env (arg_timeout a) = Inr t \<longrightarrow>
          resolve_max_retries E env (arg_max_retries a) = Inr n \<longrightarrow>
          resolve_secret E env (arg_api_key a) = Inr key \<longrightarrow>
          resolve_secret E env (arg_azure_ad_token a) = Inr token \<longrightarrow>
          init_http_client E (arg_http_client_kwargs a) = (Inr hc, evs) \<longrightarrow>
          AzureOpenAI E (client_args_of a ep t n key token hc) = None \<longrightarrow>
          init E env a =
            (Inr (attributes_of a ep t n),
             evs @ [ClientCreated (client_args_of a ep t n key token hc)]))
     \<and> (\<not> (arg_api_key a = None \<and> arg_azure_ad_token a = None) \<longrightarrow>
          (\<forall>e evs'. init E env a = (Inl e, evs') \<longrightarrow>
             resolve_timeout E env (arg_timeout a) = Inl e
             \<or> resolve_max_retries E env (arg_max_retries a) = Inl e
             \<or> resolve_secret E env (arg_api_key a) = Inl e
             \<or> resolve_secret E env (arg_azure_ad_token a) = Inl e
             \<or> fst (init_http_client E (arg_http_client_kwargs a)) = Inl e
             \<or> (\<exists>cargs. AzureOpenAI E cargs = Some e)))"
proof (intro conjI impI allI)
  assume "arg_api_key a = None \<and> arg_azure_ad_token a = None"
  then show "init E env a =
      (Inl (ValueError ''Please provide an API key or an Azure Active Directory token.''), [])"
    using assms by (simp add: init_def)
next
  assume "\<not> (arg_api_key a = None \<and> arg_azure_ad_token a = None)"
    and "resolve_timeout E env (arg_timeout a) = Inr t"
    and "resolve_max_retries E env (arg_max_retries a) = Inr n"
    and "resolve_secret E env (arg_api_key a) = Inr key"
    and "resolve_secret E env (arg_azure_ad_token a) = Inr token"
    and "init_http_client E (arg_http_client_kwargs a) = (Inr hc, evs)"
    and "AzureOpenAI E (client_args_of a ep t n key token hc) = None"
  with assms show "init E env a =
      (Inr (attributes_of a ep t n), evs @ [ClientCreated (client_args_of a ep t n key token hc)])"
    by (rule init_returns)
next
  fix e evs'
  assume "\<not> (arg_api_key a = None \<and> arg_azure_ad_token a = None)"
    and "init E env a = (Inl e, evs')"
  with assms show "resolve_timeout E env (arg_timeout a) = Inl e
             \<or> resolve_max_retries E env (arg_max_retries a) = Inl e
             \<or> resolve_secret E env (arg_api_key a) = Inl e
             \<or> resolve_secret E env (arg_azure_ad_token a) = Inl e
             \<or> fst (init_http_client E (arg_http_client_kwargs a)) = Inl e
             \<or> (\<exists>cargs. AzureOpenAI E cargs = Some e)"
    using init_Inl by blast
qed

theorem credential_check_witness:
  "init example_externals example_environ (default_args\<lparr>arg_api_key := None, arg_azure_ad_token := None\<rparr>) =
     (Inl (ValueError ''Please provide an API key or an Azure Active Directory token.''), [])
   \<and> init example_externals example_environ key_only_args =
     (Inr (attributes_of key_only_args ''https://example.openai.azure.com'' 30 5),
      [ClientCreated (client_args_of key_only_args ''https://example.openai.azure.com'' 30 5 (Some ''k3y'') None None)])"
proof -
  let ?none = "default_args\<lparr>arg_api_key := None, arg_azure_ad_token := None\<rparr>"
  let ?ep = "''https://example.openai.azure.com''"
  have e1: "endpoint_or_env (arg_azure_endpoint ?none) example_environ = Some ?ep"
    by (simp add: init_eval)
  have e2: "endpoint_or_env (arg_azure_endpoint key_only_args) example_environ = Some ?ep"
    by (simp add: init_eval key_only_args_def)
  have ne: "?ep \<noteq> []" by simp
  have a: "arg_api_key ?none = None \<and> arg_azure_ad_token ?none = None" by simp
  have b: "\<not> (arg_api_key key_only_args = None \<and> arg_azure_ad_token key_only_args = None)"
    by (simp add: key_only_args_def default_args_def)
  have s: "resolve_timeout example_externals example_environ (arg_timeout key_only_args) = Inr 30"
    "resolve_max_retries example_externals example_environ (arg_max_retries key_only_args) = Inr 5"
    "resolve_secret example_externals example_environ (arg_api_key key_only_args) = Inr (Some ''k3y'')"
    "resolve_secret example_externals example_environ (arg_azure_ad_token key_only_args) = Inr None"
    "init_http_client example_externals (arg_http_client_kwargs key_only_args) = (Inr None, [])"
    "AzureOpenAI example_externals (client_args_of key_only_args ?ep 30 5 (Some ''k3y'') None None) = None"
    by (simp_all add: init_eval key_only_args_def)
  from credential_check[OF e1 ne, of example_externals] a
    credential_check[OF e2 ne, of example_externals 30 5 "Some ''k3y''" None None "[]"] b s
  show ?thesis by simp
qed

text \<open>
  With a token provider counted as a credential, as the specification has it, C7 does
  not hold: with a resolvable endpoint and a token
  provider, but \<^verbatim>\<open>None\<close> for the API key and for the identity token, the
  construction raises the configuration error.
\<close>

theorem credential_check_counterexample:
  "init example_externals example_environ provider_only_args =
     (Inl (ValueError ''Please provide an API key or an Azure Active Directory token.''), [])
   \<and> arg_azure_ad_token_provider provider_only_args = Some (TokenProvider ''auth.get_token'')
   \<and> endpoint_or_env (arg_azure_endpoint provider_only_args) example_environ
       = Some ''https://example.openai.azure.com''"
  by (simp add: init_eval provider_only_args_def)

section \<open>Serialization and reconstruction\<close>

text \<open>
  C8, as amended. Take a component a construction returned. When its API key or its
  identity token is a secret that holds its value, \<^verbatim>\<open>to_dict\<close> raises
  \<^verbatim>\<open>ValueError\<close> and there is no serialized form. Otherwise
  \<^verbatim>\<open>to_dict\<close> returns a record in which the API key and the identity token
  are the descriptors of the secrets the constructor was given (the names of the
  environment variables and the strictness, whatever the variables hold) and the token
  provider is its name; and when the provider, if there is one, has a name that is not
  empty and that the registry resolves to the provider again, reconstructing from that
  record in the same environment gives a component with the same configuration (every
  attribute), creating the same client.
\<close>

theorem serialization_round_trip:
  assumes "init E env a = (Inr c, evs)"
  shows "((\<exists>t. api_key c = Some (TokenSecret t)) \<or> (\<exists>t. azure_ad_token c = Some (TokenSecret t)) \<longrightarrow>
        to_dict c =
          Inl (ValueError ''Cannot serialize token-based secret. Use an alternative secret type like environment variables.''))
     \<and> ((\<forall>t. api_key c \<noteq> Some (TokenSecret t)) \<and> (\<forall>t. azure_ad_token c \<noteq> Some (TokenSecret t)) \<longrightarrow>
        (\<exists>d. to_dict c = Inr d
           \<and> (arg_api_key a = None \<longrightarrow> p_api_key (init_parameters d) = None)
           \<and> (\<forall>vars st. arg_api_key a = Some (EnvVarSecret vars st) \<longrightarrow>
                 p_api_key (init_parameters d) = Some \<lparr>descr_env_vars = vars, descr_strict = st\<rparr>)
           \<and> (arg_azure_ad_token a = None \<longrightarrow> p_azure_ad_token (init_parameters d) = None)
           \<and> (\<forall>vars st. arg_azure_ad_token a = Some (EnvVarSecret vars st) \<longrightarrow>
                 p_azure_ad_token (init_parameters d) = Some \<lparr>descr_env_vars = vars, descr_strict = st\<rparr>)
           \<and> (arg_azure_ad_token_provider a = None \<longrightarrow>
                 p_azure_ad_token_provider (init_parameters d) = None)
           \<and> (\<forall>name. arg_azure_ad_token_provider a = Some (TokenProvider name) \<longrightarrow>
                 p_azure_ad_token_provider (init_parameters d) = Some name)
           \<and> ((\<forall>name. azure_ad_token_provider c = Some (TokenProvider name) \<longrightarrow>
                   name \<noteq> [] \<and> registry E name = Some (TokenProvider name)) \<longrightarrow>
                from_dict E env d = (Inr c, evs))))"
proof (intro conjI impI)
  assume "(\<exists>t. api_key c = Some (TokenSecret t)) \<or> (\<exists>t. azure_ad_token c = Some (TokenSecret t))"
  then show "to_dict c =
      Inl (ValueError ''Cannot serialize token-based secret. Use an alternative secret type like environment variables.'')"
    by (rule to_dict_token)
next
  assume nt: "(\<forall>t. api_key c \<noteq> Some (TokenSecret t)) \<and> (\<forall>t. azure_ad_token c \<noteq> Some (TokenSecret t))"
  from init_Inr[OF assms(1)] obtain ep t n key token hc evs1 where
    ep: "endpoint_or_env (arg_azure_endpoint a) env = Some ep" "ep \<noteq> []"
    and cr: "\<not> (arg_api_key a = None \<and> arg_azure_ad_token a = None)"
    and st: "resolve_timeout E env (arg_timeout a) = Inr t"
      "resolve_max_retries E env (arg_max_retries a) = Inr n"
    and sk: "resolve_secret E env (arg_api_key a) = Inr key"
      "resolve_secret E env (arg_azure_ad_token a) = Inr token"
    and hc: "init_http_client E (arg_http_client_kwargs a) = (Inr hc, evs1)"
    and az: "AzureOpenAI E (client_args_of a ep t n key token hc) = None"
    and c: "c = attributes_of a ep t n"
    and evs: "evs = evs1 @ [ClientCreated (client_args_of a ep t n key token hc)]"
    by blast
  have ck: "api_key c = arg_api_key a" and ct: "azure_ad_token c = arg_azure_ad_token a"
    and cp: "azure_ad_token_provider c = arg_azure_ad_token_provider a"
    by (simp_all add: c attributes_of_def)
  from nt have nk: "\<forall>t. api_key c \<noteq> Some (TokenSecret t)"
    and ntk: "\<forall>t. azure_ad_token c \<noteq> Some (TokenSecret t)" by simp_all
  from optional_secret_to_dict_env[OF nk] obtain kd where
    kd: "optional_secret_to_dict (api_key c) = Inr kd" "map_option secret_from_dict kd = api_key c"
      "api_key c = None \<longrightarrow> kd = None"
      "\<forall>vars st. api_key c = Some (EnvVarSecret vars st) \<longrightarrow>
           kd = Some \<lparr>descr_env_vars = vars, descr_strict = st\<rparr>"
    by (elim exE conjE)
  from optional_secret_to_dict_env[OF ntk] obtain td where
    td: "optional_secret_to_dict (azure_ad_token c) = Inr td"
      "map_option secret_from_dict td = azure_ad_token c"
      "azure_ad_token c = None \<longrightarrow> td = None"
      "\<forall>vars st. azure_ad_token c = Some (EnvVarSecret vars st) \<longrightarrow>
           td = Some \<lparr>descr_env_vars = vars, descr_strict = st\<rparr>"
    by (elim exE conjE)
  define pn where "pn = (case azure_ad_token_provider c of
               None \<Rightarrow> None
             | Some p \<Rightarrow> Some (serialize_callable p))"
  define d where "d = default_to_dict
               \<lparr>p_azure_endpoint = azure_endpoint c,
                p_azure_deployment = azure_deployment c,
                p_dimensions = dimensions c,
                p_organization = organization c,
                p_api_version = api_version c,
                p_prefix = prefix c,
                p_suffix = suffix c,
                p_batch_size = batch_size c,
                p_progress_bar = progress_bar c,
                p_meta_fields_to_embed = meta_fields_to_embed c,
                p_embedding_separator = embedding_separator c,
                p_api_key = kd,
                p_azure_ad_token = td,
                p_timeout = timeout c,
                p_max_retries = max_retries c,
                p_default_headers = default_headers c,
                p_azure_ad_token_provider = pn,
                p_http_client_kwargs = http_client_kwargs c\<rparr>"
  have td_eq: "to_dict c = Inr d"
    by (simp add: to_dict_def kd(1) td(1) d_def pn_def)
  have pk: "p_api_key (init_parameters d) = kd" "p_azure_ad_token (init_parameters d) = td"
    "p_azure_ad_token_provider (init_parameters d) = pn"
    by (simp_all add: d_def default_to_dict_def)
  have pn_none: "arg_azure_ad_token_provider a = None \<longrightarrow> pn = None"
    by (simp add: pn_def cp)
  have pn_some: "\<forall>name. arg_azure_ad_token_provider a = Some (TokenProvider name) \<longrightarrow> pn = Some name"
    by (simp add: pn_def cp)
  have rt: "from_dict E env d = (Inr c, evs)"
    if res: "\<forall>name. azure_ad_token_provider c = Some (TokenProvider name) \<longrightarrow>
                   name \<noteq> [] \<and> registry E name = Some (TokenProvider name)"
  proof -
    let ?params = "init_parameters d"
    have prov: "(case p_azure_ad_token_provider ?params of
               None \<Rightarrow> Inr None
             | Some name \<Rightarrow>
                 (if name = [] then Inr None
                  else map_sum (\<lambda>e. e) Some (deserialize_callable E name)))
            = Inr (arg_azure_ad_token_provider a)"
    proof (cases "arg_azure_ad_token_provider a")
      case None
      then show ?thesis by (simp add: pk pn_def cp)
    next
      case (Some p)
      obtain name where p: "p = TokenProvider name" by (cases p)
      with res Some cp have "name \<noteq> []" "registry E name = Some (TokenProvider name)" by simp_all
      with Some p show ?thesis by (simp add: pk pn_def cp deserialize_callable_def)
    qed
    let ?a' = "\<lparr>arg_azure_endpoint = Some (p_azure_endpoint ?params),
                arg_api_version = p_api_version ?params,
                arg_azure_deployment = p_azure_deployment ?params,
                arg_dimensions = p_dimensions ?params,
                arg_api_key = map_option secret_from_dict (p_api_key ?params),
                arg_azure_ad_token = map_option secret_from_dict (p_azure_ad_token ?params),
                arg_organization = p_organization ?params,
                arg_prefix = p_prefix ?params,
                arg_suffix = p_suffix ?params,
                arg_batch_size = p_batch_size ?params,
                arg_progress_bar = p_progress_bar ?params,
                arg_meta_fields_to_embed = Some (p_meta_fields_to_embed ?params),
                arg_embedding_separator = p_embedding_separator ?params,
                arg_timeout = Some (p_timeout ?params),
                arg_max_retries = Some (p_max_retries ?params),
                arg_default_headers = Some (p_default_headers ?params),
                arg_azure_ad_token_provider = arg_azure_ad_token_provider a,
                arg_http_client_kwargs = p_http_client_kwargs ?params\<rparr>"
    have fd: "from_dict E env d = init E env ?a'"
      by (simp add: from_dict_def Let_def prov default_from_dict_def)
    have keys: "arg_api_key ?a' = arg_api_key a" "arg_azure_ad_token ?a' = arg_azure_ad_token a"
      using kd(2) td(2) by (simp_all add: pk ck ct)
    have fields: "p_azure_endpoint ?params = ep" "p_timeout ?params = t" "p_max_retries ?params = n"
      "p_http_client_kwargs ?params = arg_http_client_kwargs a"
      by (simp_all add: d_def default_to_dict_def c attributes_of_def)
    have 1: "endpoint_or_env (arg_azure_endpoint ?a') env = Some ep"
      using ep(2) by (simp add: endpoint_or_env_def fields)
    have 3: "\<not> (arg_api_key ?a' = None \<and> arg_azure_ad_token ?a' = None)"
      using cr unfolding keys .
    have 4: "resolve_timeout E env (arg_timeout ?a') = Inr t"
      by (simp add: resolve_timeout_def fields)
    have 5: "resolve_max_retries E env (arg_max_retries ?a') = Inr n"
      by (simp add: resolve_max_retries_def fields)
    have 6: "resolve_secret E env (arg_api_key ?a') = Inr key"
      "resolve_secret E env (arg_azure_ad_token ?a') = Inr token"
      unfolding keys using sk by simp_all
    have 7: "init_http_client E (arg_http_client_kwargs ?a') = (Inr hc, evs1)"
      using hc by (simp add: fields)
    have ca: "client_args_of ?a' ep t n key token hc = client_args_of a ep t n key token hc"
      by (simp add: client_args_of_def d_def default_to_dict_def c attributes_of_def or_empty_def)
    have at: "attributes_of ?a' ep t n = attributes_of a ep t n"
      using keys
      by (simp add: d_def default_to_dict_def c attributes_of_def or_empty_def)
    have 8: "AzureOpenAI E (client_args_of ?a' ep t n key token hc) = None"
      unfolding ca using az .
    have "init E env ?a' =
        (Inr (attributes_of ?a' ep t n), evs1 @ [ClientCreated (client_args_of ?a' ep t n key token hc)])"
      using 1 ep(2) 3 4 5 6 7 8 by (rule init_returns)
    also have "\<dots> = (Inr c, evs)" by (simp only: ca at c[symmetric] evs[symmetric])
    finally have "init E env ?a' = (Inr c, evs)" .
    with fd show ?thesis by simp
  qed
  from td_eq pk kd(3,4) td(3,4) pn_none pn_some rt ck ct
  show "\<exists>d. to_dict c = Inr d
           \<and> (arg_api_key a = None \<longrightarrow> p_api_key (init_parameters d) = None)
           \<and> (\<forall>vars st. arg_api_key a = Some (EnvVarSecret vars st) \<longrightarrow>
                 p_api_key (init_parameters d) = Some \<lparr>descr_env_vars = vars, descr_strict = st\<rparr>)
           \<and> (arg_azure_ad_token a = None \<longrightarrow> p_azure_ad_token (init_parameters d) = None)
           \<and> (\<forall>vars st. arg_azure_ad_token a = Some (EnvVarSecret vars st) \<longrightarrow>
                 p_azure_ad_token (init_parameters d) = Some \<lparr>descr_env_vars = vars, descr_strict = st\<rparr>)
           \<and> (arg_azure_ad_token_provider a = None \<longrightarrow>
                 p_azure_ad_token_provider (init_parameters d) = None)
           \<and> (\<forall>name. arg_azure_ad_token_provider a = Some (TokenProvider name) \<longrightarrow>
                 p_azure_ad_token_provider (init_parameters d) = Some name)
           \<and> ((\<forall>name. azure_ad_token_provider c = Some (TokenProvider name) \<longrightarrow>
                   name \<noteq> [] \<and> registry E name = Some (TokenProvider name)) \<longrightarrow>
                from_dict E env d = (Inr c, evs))"
    by (intro exI[of _ d]) simp
qed

theorem serialization_round_trip_witness:
  "init example_externals example_environ key_and_provider_args =
     (Inr (attributes_of key_and_provider_args ''https://example.openai.azure.com'' 30 5),
      [ClientCreated (client_args_of key_and_provider_args ''https://example.openai.azure.com'' 30 5
         (Some ''k3y'') None None)])
   \<and> map_sum id (from_dict example_externals example_environ)
       (to_dict (attributes_of key_and_provider_args ''https://example.openai.azure.com'' 30 5)) =
     Inr (Inr (attributes_of key_and_provider_args ''https://example.openai.azure.com'' 30 5),
          [ClientCreated (client_args_of key_and_provider_args ''https://example.openai.azure.com'' 30 5
             (Some ''k3y'') None None)])
   \<and> map_sum id (\<lambda>d. p_api_key (init_parameters d))
       (to_dict (attributes_of key_and_provider_args ''https://example.openai.azure.com'' 30 5)) =
     Inr (Some \<lparr>descr_env_vars = [''AZURE_OPENAI_API_KEY''], descr_strict = False\<rparr>)
   \<and> map_sum id (\<lambda>d. p_azure_ad_token_provider (init_parameters d))
       (to_dict (attributes_of key_and_provider_args ''https://example.openai.azure.com'' 30 5)) =
     Inr (Some ''auth.get_token'')"
proof -
  let ?c = "attributes_of key_and_provider_args ''https://example.openai.azure.com'' 30 5"
  let ?evs = "[ClientCreated (client_args_of key_and_provider_args ''https://example.openai.azure.com'' 30 5
         (Some ''k3y'') None None)]"
  have i: "init example_externals example_environ key_and_provider_args = (Inr ?c, ?evs)"
    by (simp add: init_eval key_and_provider_args_def)
  have nt: "(\<forall>t. api_key ?c \<noteq> Some (TokenSecret t)) \<and> (\<forall>t. azure_ad_token ?c \<noteq> Some (TokenSecret t))"
    by (simp add: attributes_of_def key_and_provider_args_def default_args_def)
  have r: "\<forall>name. azure_ad_token_provider ?c = Some (TokenProvider name) \<longrightarrow>
           name \<noteq> [] \<and> registry example_externals name = Some (TokenProvider name)"
    by (simp add: attributes_of_def key_and_provider_args_def default_args_def example_externals_def)
  have k: "arg_api_key key_and_provider_args = Some (EnvVarSecret [''AZURE_OPENAI_API_KEY''] False)"
    "arg_azure_ad_token_provider key_and_provider_args = Some (TokenProvider ''auth.get_token'')"
    by (simp_all add: key_and_provider_args_def default_args_def)
  from serialization_round_trip[OF i] nt obtain d where
    d: "to_dict ?c = Inr d"
    and dk: "\<forall>vars st. arg_api_key key_and_provider_args = Some (EnvVarSecret vars st) \<longrightarrow>
                 p_api_key (init_parameters d) = Some \<lparr>descr_env_vars = vars, descr_strict = st\<rparr>"
    and dp: "\<forall>name. arg_azure_ad_token_provider key_and_provider_args = Some (TokenProvider name) \<longrightarrow>
                 p_azure_ad_token_provider (init_parameters d) = Some name"
    and rt: "(\<forall>name. azure_ad_token_provider ?c = Some (TokenProvider name) \<longrightarrow>
                   name \<noteq> [] \<and> registry example_externals name = Some (TokenProvider name)) \<longrightarrow>
                from_dict example_externals example_environ d = (Inr ?c, ?evs)"
    by blast
  from rt r have "from_dict example_externals example_environ d = (Inr ?c, ?evs)" by blast
  moreover from dk k(1) have "p_api_key (init_parameters d)
      = Some \<lparr>descr_env_vars = [''AZURE_OPENAI_API_KEY''], descr_strict = False\<rparr>" by blast
  moreover from dp k(2) have "p_azure_ad_token_provider (init_parameters d) = Some ''auth.get_token''"
    by blast
  ultimately show ?thesis using i d by simp
qed

text \<open>
  Stated for every constructed component, as the specification has it, C8 does not hold.
  A component constructed with an API key that holds its value is not serialized:
  \<^verbatim>\<open>to_dict\<close> raises. And a component whose token provider the registry
  does not know is serialized, and the reconstruction from the record raises.
\<close>

theorem serialization_round_trip_counterexample:
  "init example_externals example_environ token_key_args =
     (Inr (attributes_of token_key_args ''https://example.openai.azure.com'' 30 5),
      [ClientCreated (client_args_of token_key_args ''https://example.openai.azure.com'' 30 5
         (Some ''k3y'') None None)])
   \<and> to_dict (attributes_of token_key_args ''https://example.openai.azure.com'' 30 5) =
     Inl (ValueError ''Cannot serialize token-based secret. Use an alternative secret type like environment variables.'')
   \<and> init empty_registry_externals example_environ key_and_provider_args =
     (Inr (attributes_of key_and_provider_args ''https://example.openai.azure.com'' 30 5),
      [ClientCreated (client_args_of key_and_provider_args ''https://example.openai.azure.com'' 30 5
         (Some ''k3y'') None None)])
   \<and> map_sum id (from_dict empty_registry_externals example_environ)
       (to_dict (attributes_of key_and_provider_args ''https://example.openai.azure.com'' 30 5)) =
     Inr (Inl (DeserializationError ''auth.get_token''), [])"
  by (simp add: init_eval token_key_args_def key_and_provider_args_def empty_registry_externals_def
      to_dict_def optional_secret_to_dict_def default_to_dict_def from_dict_def
      deserialize_callable_def Let_def)

end
